theory Spec2Isabelle
  imports Complex_Main "HOL-Library.Multiset" "HOL-Library.List_Lexorder" "HOL-Library.Char_ord"
begin


section \<open>Python sequence primitives\<close>

text \<open>
  Python's slice \<^verbatim>\<open>xs[i:j]\<close> on a sequence of length \<open>n\<close>: a negative bound counts
  from the end (\<open>n\<close> is added to it), and every bound is then clamped to \<open>[0, n]\<close>.
  A slice never raises.
\<close>

definition slice_bound :: "nat \<Rightarrow> int \<Rightarrow> nat" where
  "slice_bound n i = (if i < 0 then nat (max 0 (int n + i)) else min n (nat i))"

definition py_slice :: "'a list \<Rightarrow> int \<Rightarrow> int \<Rightarrow> 'a list" where
  "py_slice xs i j =
     (let a = slice_bound (length xs) i; b = slice_bound (length xs) j
      in take (b - a) (drop a xs))"

text \<open>\<^verbatim>\<open>xs[:k]\<close>, the slice with the lower bound left out.\<close>

definition py_slice_upto :: "'a list \<Rightarrow> int \<Rightarrow> 'a list" where
  "py_slice_upto xs k = take (slice_bound (length xs) k) xs"

section \<open>Chunking (utils/chunking.py)\<close>

subsection \<open>Character windows\<close>

text \<open>
  \<^verbatim>\<open>_split_by_chars\<close>: the \<^verbatim>\<open>while start < len(text)\<close> loop. The loop state is
  \<open>start\<close> and \<open>chunks\<close>; \<open>step = max(1, chunk_size - chunk_overlap)\<close> is fixed before
  the loop. A Python string is a sequence of code points, here a list of characters.
  All three integers are Python ints, hence unbounded and possibly negative.
\<close>

function split_by_chars_loop ::
  "string \<Rightarrow> int \<Rightarrow> int \<Rightarrow> int \<Rightarrow> string list \<Rightarrow> string list" where
  "split_by_chars_loop text chunk_size chunk_overlap start chunks =
     (if start < int (length text)
      then split_by_chars_loop text chunk_size chunk_overlap
             (start + max 1 (chunk_size - chunk_overlap))
             (chunks @ [py_slice text start (min (int (length text)) (start + chunk_size))])
      else chunks)"
  by pat_completeness auto
termination
  by (relation "measure (\<lambda>(text, cs, co, start, chunks). nat (int (length text) - start))") auto

declare split_by_chars_loop.simps [simp del]

definition split_by_chars :: "string \<Rightarrow> int \<Rightarrow> int \<Rightarrow> string list" where
  "split_by_chars text chunk_size chunk_overlap =
     split_by_chars_loop text chunk_size chunk_overlap 0 []"

text \<open>
  The same loop with the step as the loop-invariant local it is in the source, and with
  running forever representable: the result is \<open>None\<close> exactly when the loop does not
  return.
\<close>

partial_function (option) split_by_chars_while ::
  "string \<Rightarrow> int \<Rightarrow> int \<Rightarrow> int \<Rightarrow> string list \<Rightarrow> string list option" where
  "split_by_chars_while text chunk_size step start chunks =
     (if start < int (length text)
      then split_by_chars_while text chunk_size step (start + step)
             (chunks @ [py_slice text start (min (int (length text)) (start + chunk_size))])
      else Some chunks)"

definition split_by_chars_run :: "string \<Rightarrow> int \<Rightarrow> int \<Rightarrow> string list option" where
  "split_by_chars_run text chunk_size chunk_overlap =
     split_by_chars_while text chunk_size (max 1 (chunk_size - chunk_overlap)) 0 []"

subsection \<open>Token windows\<close>

text \<open>
  The optional tokenizer (\<^verbatim>\<open>tiktoken\<close>) is an external library: an encoding turns a text
  into token ids and a token sequence back into text. Either call may raise; \<open>None\<close> is
  "raised an exception". \<^verbatim>\<open>get_encoding\<close> failing is an \<open>encode\<close> that raises on every input.
\<close>

record tokenizer =
  encode :: "string \<Rightarrow> nat list option"
  decode :: "nat list \<Rightarrow> string option"

function split_by_tokens_loop ::
  "tokenizer \<Rightarrow> nat list \<Rightarrow> int \<Rightarrow> int \<Rightarrow> int \<Rightarrow> string list \<Rightarrow> string list option" where
  "split_by_tokens_loop enc tokens chunk_size chunk_overlap start chunks =
     (if start < int (length tokens)
      then (case decode enc (py_slice tokens start (min (int (length tokens)) (start + chunk_size))) of
              None \<Rightarrow> None
            | Some s \<Rightarrow> split_by_tokens_loop enc tokens chunk_size chunk_overlap
                         (start + max 1 (chunk_size - chunk_overlap)) (chunks @ [s]))
      else Some chunks)"
  by pat_completeness auto
termination
  by (relation "measure (\<lambda>(enc, tokens, cs, co, start, chunks). nat (int (length tokens) - start))") auto

declare split_by_tokens_loop.simps [simp del]

definition split_by_tokens :: "tokenizer \<Rightarrow> string \<Rightarrow> int \<Rightarrow> int \<Rightarrow> string list option" where
  "split_by_tokens enc text chunk_size chunk_overlap =
     (case encode enc text of
        None \<Rightarrow> None
      | Some tokens \<Rightarrow> split_by_tokens_loop enc tokens chunk_size chunk_overlap 0 [])"

text \<open>
  \<^verbatim>\<open>chunk_text\<close>: empty text gives no chunk; the token strategy is used when the tokenizer
  is there (\<open>Some enc\<close>) and does not raise, the character strategy otherwise.
\<close>

definition chunk_text :: "tokenizer option \<Rightarrow> string \<Rightarrow> int \<Rightarrow> int \<Rightarrow> string list" where
  "chunk_text tiktoken text chunk_size chunk_overlap =
     (if text = [] then []
      else (case tiktoken of
              None \<Rightarrow> split_by_chars text chunk_size chunk_overlap
            | Some enc \<Rightarrow>
                (case split_by_tokens enc text chunk_size chunk_overlap of
                   Some chunks \<Rightarrow> chunks
                 | None \<Rightarrow> split_by_chars text chunk_size chunk_overlap)))"

subsection \<open>Chunk identifiers\<close>

text \<open>
  \<^verbatim>\<open>math.ceil(math.log10(m))\<close> for \<open>m \<ge> 1\<close>, computed exactly: the least \<open>k\<close> with
  \<open>m \<le> 10 ^ k\<close>. (The source goes through a double; the two agree as long as the
  double logarithm of \<open>m\<close> is on the right side of the integer, which holds for every
  count below about \<open>10 ^ 15\<close>.)
\<close>

function ceil_log10 :: "nat \<Rightarrow> nat" where
  "ceil_log10 m = (if m \<le> 1 then 0 else Suc (ceil_log10 ((m + 9) div 10)))"
  by pat_completeness auto
termination
  by (relation "measure id") auto

declare ceil_log10.simps [simp del]

text \<open>\<^verbatim>\<open>str(idx)\<close> of a non-negative int: its decimal digits, most significant first.\<close>

definition digit_char :: "nat \<Rightarrow> char" where
  "digit_char d = ''0123456789'' ! d"

function str_nat :: "nat \<Rightarrow> string" where
  "str_nat n = (if n < 10 then [digit_char n] else str_nat (n div 10) @ [digit_char (n mod 10)])"
  by pat_completeness auto
termination
  by (relation "measure id") auto

declare str_nat.simps [simp del]

text \<open>
  \<^verbatim>\<open>s.zfill(width)\<close>: pad with \<^verbatim>\<open>'0'\<close> on the left up to \<open>width\<close>; a leading sign stays
  in front of the padding.
\<close>

definition zfill :: "string \<Rightarrow> nat \<Rightarrow> string" where
  "zfill s width =
     (if width \<le> length s then s
      else (case s of
              [] \<Rightarrow> replicate width (CHR ''0'')
            | c # r \<Rightarrow>
                if c = CHR ''+'' \<or> c = CHR ''-''
                then c # replicate (width - length s) (CHR ''0'') @ r
                else replicate (width - length s) (CHR ''0'') @ s))"

definition enumerate_chunks :: "string list \<Rightarrow> string \<Rightarrow> string list" where
  "enumerate_chunks chunks prefix =
     (let chunk_list = chunks;
          total_digits = (if chunk_list \<noteq> [] then max 4 (ceil_log10 (length chunk_list + 1)) else 4)
      in map (\<lambda>idx. prefix @ ''-'' @ zfill (str_nat idx) total_digits)
           [1 ..< Suc (length chunk_list)])"

text \<open>
  Two notions used to state properties of the identifiers: the number a string of decimal
  digits denotes, and a string consisting of decimal digits only. \<open>padded w k\<close> is
  \<open>str(k)\<close> with zeros in front up to width \<open>w\<close>.
\<close>

fun digits_val :: "string \<Rightarrow> nat" where
  "digits_val [] = 0"
| "digits_val (c # cs) = (of_char c - 48) * 10 ^ length cs + digits_val cs"

definition is_digits :: "string \<Rightarrow> bool" where
  "is_digits s = list_all (\<lambda>c. 48 \<le> (of_char c :: nat) \<and> (of_char c :: nat) < 58) s"

definition padded :: "nat \<Rightarrow> nat \<Rightarrow> string" where
  "padded w k = replicate (w - length (str_nat k)) (CHR ''0'') @ str_nat k"

section \<open>Domain models (models.py)\<close>

text \<open>
  A metadata value is a Python scalar: \<^verbatim>\<open>None\<close>, a bool, an int or a string (floats are
  left out). A metadata mapping is a Python dict with string keys, kept as an association
  list in insertion order.
\<close>

datatype pyval = PNone | PBool bool | PInt int | PStr string

type_synonym metadata = "(string \<times> pyval) list"

record document =
  d_id :: string
  d_source :: string
  d_content :: string
  d_metadata :: metadata

record document_chunk =
  c_id :: string
  c_document_id :: string
  c_source :: string
  c_content :: string
  c_metadata :: metadata

record 'f search_result =
  r_chunk :: document_chunk
  r_score :: 'f

text \<open>\<^verbatim>\<open>d.get(key)\<close>: the value, or \<^verbatim>\<open>None\<close> when the key is absent.\<close>

definition dict_get :: "metadata \<Rightarrow> string \<Rightarrow> pyval" where
  "dict_get d k = (case map_of d k of None \<Rightarrow> PNone | Some v \<Rightarrow> v)"

text \<open>Python truth value testing, as \<^verbatim>\<open>if title:\<close> applies it.\<close>

fun truthy :: "pyval \<Rightarrow> bool" where
  "truthy PNone = False"
| "truthy (PBool b) = b"
| "truthy (PInt i) = (i \<noteq> 0)"
| "truthy (PStr s) = (s \<noteq> [])"

text \<open>\<^verbatim>\<open>f"{v}"\<close>, that is \<^verbatim>\<open>str(v)\<close>.\<close>

definition str_int :: "int \<Rightarrow> string" where
  "str_int i = (if i < 0 then CHR ''-'' # str_nat (nat (- i)) else str_nat (nat i))"

fun py_str :: "pyval \<Rightarrow> string" where
  "py_str PNone = ''None''"
| "py_str (PBool b) = (if b then ''True'' else ''False'')"
| "py_str (PInt i) = str_int i"
| "py_str (PStr s) = s"

text \<open>
  \<^verbatim>\<open>SearchResult.citation\<close>. The result is \<open>None\<close> for Python's \<^verbatim>\<open>None\<close>; the title is
  returned formatted as a string, the path as it is.
\<close>

definition citation :: "'f search_result \<Rightarrow> pyval option" where
  "citation r =
     (let title = dict_get (c_metadata (r_chunk r)) ''title'' in
      if truthy title then Some (PStr (py_str title))
      else (let path = dict_get (c_metadata (r_chunk r)) ''path'' in
            if truthy path then Some path else None))"

text \<open>
  The preference order as the specification words it, by presence of the key alone:
  the title value when the key is present, else the path value when that key is present,
  else none.
\<close>

definition citation_by_presence :: "'f search_result \<Rightarrow> pyval option" where
  "citation_by_presence r =
     (case map_of (c_metadata (r_chunk r)) ''title'' of
        Some t \<Rightarrow> Some t
      | None \<Rightarrow> map_of (c_metadata (r_chunk r)) ''path'')"

section \<open>Vector store (storage/vector_store.py)\<close>

subsection \<open>Arrays and the embedding provider\<close>

text \<open>
  A 2-D array is its column count (\<^verbatim>\<open>shape[1]\<close>) and its rows; every row of an array
  NumPy builds has that many entries. The arrays of the store hold 32-bit floats; an
  entry is the real number the float denotes (infinite and NaN entries are left out).
  An array that is not 2-D is known by its \<^verbatim>\<open>ndim\<close> only, since the store rejects it.
\<close>

record matrix =
  ncols :: nat
  rows :: "real list list"

datatype ndarray = Mat matrix | NotMat nat

datatype error =
    ValueError string
  | IndexError
  | TypeError
  | AttributeError
  | ProviderError string
  | Unmodelled

text \<open>
  The embedding provider is an external service. \<open>embed texts\<close> is the outcome of
  \<^verbatim>\<open>np.asarray(embedder.embed(texts), dtype=np.float32)\<close>: the exception it raises, or
  the array.
\<close>

record embedding_backend =
  model_name :: string
  embed :: "string list \<Rightarrow> error + ndarray"

subsection \<open>The store and its directory\<close>

record store =
  s_chunks :: "document_chunk list"
  s_embeddings :: "matrix option"
  s_embedding_model :: "string option"

text \<open>
  The contents of \<^verbatim>\<open>metadata.json\<close>, as the JSON value \<^verbatim>\<open>json.load\<close> returns for it
  (numbers are ints; the text encoding is the library's), and of \<^verbatim>\<open>vectors.npy\<close>, as the
  2-D array \<^verbatim>\<open>np.load\<close> returns. \<open>None\<close> is "the file does not exist".
\<close>

datatype json = JNull | JBool bool | JInt int | JStr string | JArr "json list" | JObj "(string \<times> json) list"

record directory =
  meta_file :: "json option"
  vectors_file :: "matrix option"

fun json_of_pyval :: "pyval \<Rightarrow> json" where
  "json_of_pyval PNone = JNull"
| "json_of_pyval (PBool b) = JBool b"
| "json_of_pyval (PInt i) = JInt i"
| "json_of_pyval (PStr s) = JStr s"

text \<open>\<^verbatim>\<open>asdict(chunk)\<close>, as \<^verbatim>\<open>json.dump\<close> writes it.\<close>

definition asdict :: "document_chunk \<Rightarrow> json" where
  "asdict c = JObj
     [(''id'', JStr (c_id c)),
      (''document_id'', JStr (c_document_id c)),
      (''source'', JStr (c_source c)),
      (''content'', JStr (c_content c)),
      (''metadata'', JObj (map (\<lambda>(k, v). (k, json_of_pyval v)) (c_metadata c)))]"

text \<open>
  Reading a chunk back: \<^verbatim>\<open>DocumentChunk(**item)\<close>. The item must be a mapping whose keys
  are field names, the four fields without a default among them (\<^verbatim>\<open>TypeError\<close>
  otherwise); \<^verbatim>\<open>metadata\<close> defaults to the empty dict. The dataclass does not check the
  types of the values; a value that the chunk type of this model cannot hold (an
  identifier that is not a string, a nested metadata value) is reported as \<open>Unmodelled\<close>.
\<close>

fun pyval_of_json :: "json \<Rightarrow> error + pyval" where
  "pyval_of_json JNull = Inr PNone"
| "pyval_of_json (JBool b) = Inr (PBool b)"
| "pyval_of_json (JInt i) = Inr (PInt i)"
| "pyval_of_json (JStr s) = Inr (PStr s)"
| "pyval_of_json (JArr xs) = Inl Unmodelled"
| "pyval_of_json (JObj kv) = Inl Unmodelled"

fun str_field :: "json \<Rightarrow> error + string" where
  "str_field (JStr s) = Inr s"
| "str_field _ = Inl Unmodelled"

fun metadata_of_json :: "(string \<times> json) list \<Rightarrow> error + metadata" where
  "metadata_of_json [] = Inr []"
| "metadata_of_json ((k, j) # kv) =
     (case pyval_of_json j of
        Inl e \<Rightarrow> Inl e
      | Inr v \<Rightarrow> (case metadata_of_json kv of Inl e \<Rightarrow> Inl e | Inr m \<Rightarrow> Inr ((k, v) # m)))"

fun metadata_field :: "json option \<Rightarrow> error + metadata" where
  "metadata_field None = Inr []"
| "metadata_field (Some (JObj kv)) = metadata_of_json kv"
| "metadata_field (Some _) = Inl Unmodelled"

definition chunk_of_json :: "json \<Rightarrow> error + document_chunk" where
  "chunk_of_json item =
     (case item of
        JObj kv \<Rightarrow>
          if \<not> set (map fst kv) \<subseteq> {''id'', ''document_id'', ''source'', ''content'', ''metadata''}
          then Inl TypeError
          else (case (map_of kv ''id'', map_of kv ''document_id'', map_of kv ''source'',
                      map_of kv ''content'') of
                  (Some i, Some d, Some s, Some c) \<Rightarrow>
                    (case (str_field i, str_field d, str_field s, str_field c,
                           metadata_field (map_of kv ''metadata'')) of
                       (Inr i', Inr d', Inr s', Inr c', Inr m) \<Rightarrow>
                         Inr \<lparr>c_id = i', c_document_id = d', c_source = s', c_content = c',
                              c_metadata = m\<rparr>
                     | _ \<Rightarrow> Inl Unmodelled)
                | _ \<Rightarrow> Inl TypeError)
      | _ \<Rightarrow> Inl TypeError)"

fun chunks_of_items :: "json list \<Rightarrow> error + document_chunk list" where
  "chunks_of_items [] = Inr []"
| "chunks_of_items (item # items) =
     (case chunk_of_json item of
        Inl e \<Rightarrow> Inl e
      | Inr c \<Rightarrow> (case chunks_of_items items of Inl e \<Rightarrow> Inl e | Inr cs \<Rightarrow> Inr (c # cs)))"

text \<open>
  \<^verbatim>\<open>[DocumentChunk(**item) for item in meta.get("chunks", [])]\<close>: the file must hold an
  object (\<^verbatim>\<open>AttributeError\<close> on \<^verbatim>\<open>.get\<close> otherwise); a missing key gives no chunk; a value
  that is not an array is iterated all the same, which yields nothing when it is an empty
  string or object and fails otherwise.
\<close>

definition load_chunks :: "json \<Rightarrow> error + document_chunk list" where
  "load_chunks meta =
     (case meta of
        JObj kv \<Rightarrow>
          (case map_of kv ''chunks'' of
             None \<Rightarrow> Inr []
           | Some (JArr items) \<Rightarrow> chunks_of_items items
           | Some (JStr s) \<Rightarrow> if s = [] then Inr [] else Inl TypeError
           | Some (JObj kv') \<Rightarrow> if kv' = [] then Inr [] else Inl TypeError
           | Some _ \<Rightarrow> Inl TypeError)
      | _ \<Rightarrow> Inl AttributeError)"

text \<open>\<^verbatim>\<open>meta.get("embedding_model")\<close>: a string or \<^verbatim>\<open>None\<close>.\<close>

definition load_embedding_model :: "json \<Rightarrow> error + string option" where
  "load_embedding_model meta =
     (case meta of
        JObj kv \<Rightarrow>
          (case map_of kv ''embedding_model'' of
             None \<Rightarrow> Inr None
           | Some JNull \<Rightarrow> Inr None
           | Some (JStr s) \<Rightarrow> Inr (Some s)
           | Some _ \<Rightarrow> Inl Unmodelled)
      | _ \<Rightarrow> Inl AttributeError)"

text \<open>
  \<^verbatim>\<open>VectorStore.__init__\<close> with \<^verbatim>\<open>_load\<close>: both files are read when both exist, and the
  store starts empty otherwise. Nothing compares the number of chunk records with the
  number of rows.
\<close>

definition store_open :: "directory \<Rightarrow> error + store" where
  "store_open dir =
     (case (meta_file dir, vectors_file dir) of
        (Some meta, Some vectors) \<Rightarrow>
          (case load_chunks meta of
             Inl e \<Rightarrow> Inl e
           | Inr cs \<Rightarrow>
               (case load_embedding_model meta of
                  Inl e \<Rightarrow> Inl e
                | Inr m \<Rightarrow> Inr \<lparr>s_chunks = cs, s_embeddings = Some vectors, s_embedding_model = m\<rparr>))
      | _ \<Rightarrow> Inr \<lparr>s_chunks = [], s_embeddings = None, s_embedding_model = None\<rparr>)"

text \<open>\<^verbatim>\<open>_save\<close>: the metadata file is always rewritten, the vector file when there is a matrix.\<close>

definition payload :: "store \<Rightarrow> json" where
  "payload st = JObj
     [(''chunks'', JArr (map asdict (s_chunks st))),
      (''embedding_model'', (case s_embedding_model st of None \<Rightarrow> JNull | Some m \<Rightarrow> JStr m))]"

definition save :: "store \<Rightarrow> directory \<Rightarrow> directory" where
  "save st dir =
     \<lparr>meta_file = Some (payload st),
      vectors_file = (case s_embeddings st of None \<Rightarrow> vectors_file dir | Some e \<Rightarrow> Some e)\<rparr>"

subsection \<open>Adding documents\<close>

text \<open>
  The chunks of one document: its text is split, the pieces are numbered with the
  document's id as prefix, and each piece becomes a chunk record carrying the document's
  source and metadata.
\<close>

definition document_chunks :: "tokenizer option \<Rightarrow> int \<Rightarrow> int \<Rightarrow> document \<Rightarrow> document_chunk list" where
  "document_chunks tiktoken chunk_size chunk_overlap document =
     (let chunks = chunk_text tiktoken (d_content document) chunk_size chunk_overlap;
          chunk_ids = enumerate_chunks chunks (d_id document)
      in map (\<lambda>(chunk_id, chunk_content).
                \<lparr>c_id = chunk_id, c_document_id = d_id document, c_source = d_source document,
                 c_content = chunk_content, c_metadata = d_metadata document\<rparr>)
           (zip chunk_ids chunks))"

definition new_chunks_of :: "tokenizer option \<Rightarrow> int \<Rightarrow> int \<Rightarrow> document list \<Rightarrow> document_chunk list" where
  "new_chunks_of tiktoken chunk_size chunk_overlap documents =
     concat (map (document_chunks tiktoken chunk_size chunk_overlap) documents)"

text \<open>\<^verbatim>\<open>np.vstack([a, b])\<close> for two 2-D arrays of the same width.\<close>

definition vstack :: "matrix \<Rightarrow> matrix \<Rightarrow> matrix" where
  "vstack a b = \<lparr>ncols = ncols a, rows = rows a @ rows b\<rparr>"

text \<open>
  \<^verbatim>\<open>add_documents\<close>. The state is the store object and its directory; the outcome is
  \<open>None\<close> when the call returns and the exception when it raises, and the state after
  the call comes with it in both cases.
\<close>

definition add_documents ::
  "tokenizer option \<Rightarrow> embedding_backend \<Rightarrow> document list \<Rightarrow> int \<Rightarrow> int \<Rightarrow>
   store \<times> directory \<Rightarrow> error option \<times> store \<times> directory" where
  "add_documents tiktoken embedder documents chunk_size chunk_overlap state =
     (let (st, dir) = state;
          new_chunks = new_chunks_of tiktoken chunk_size chunk_overlap documents;
          chunk_texts = map c_content new_chunks
      in if new_chunks = [] then (None, st, dir)
         else (case embed embedder chunk_texts of
                 Inl e \<Rightarrow> (Some e, st, dir)
               | Inr (NotMat n) \<Rightarrow> (Some (ValueError ''Embeddings must be a 2D array''), st, dir)
               | Inr (Mat new) \<Rightarrow>
                   (case s_embeddings st of
                      None \<Rightarrow>
                        (let st' = \<lparr>s_chunks = new_chunks, s_embeddings = Some new,
                                    s_embedding_model = Some (model_name embedder)\<rparr>
                         in (None, st', save st' dir))
                    | Some old \<Rightarrow>
                        if ncols new \<noteq> ncols old
                        then (Some (ValueError ''Embedding dimension mismatch''), st, dir)
                        else (let st' = \<lparr>s_chunks = s_chunks st @ new_chunks,
                                          s_embeddings = Some (vstack old new),
                                          s_embedding_model = Some (model_name embedder)\<rparr>
                              in (None, st', save st' dir)))))"

text \<open>
  The states a store and its directory can be in: a store opened on a directory, and
  whatever calls of \<^verbatim>\<open>add_documents\<close> make of it.
\<close>

inductive reachable :: "store \<times> directory \<Rightarrow> bool" where
  opened: "store_open dir = Inr st \<Longrightarrow> reachable (st, dir)"
| added: "reachable state \<Longrightarrow>
          add_documents tiktoken embedder documents chunk_size chunk_overlap state = (outcome, state')
          \<Longrightarrow> reachable state'"

definition chunk_count :: "store \<Rightarrow> nat" where
  "chunk_count st = length (s_chunks st)"

definition embedding_dimension :: "store \<Rightarrow> nat option" where
  "embedding_dimension st = map_option ncols (s_embeddings st)"

subsection \<open>Search\<close>

text \<open>
  The search works on 32-bit floats: the stored matrix and the query vector have
  \<^verbatim>\<open>dtype=np.float32\<close>, and so have the norms, the products and the similarities NumPy
  computes from them. What these operations return (how a result is rounded, when it
  overflows, in which order a sum is added up) is NumPy's and its BLAS library's, not
  the store's. They are a parameter of the search, one field for each operation of the
  source: \<open>np_norm_axis1\<close> is one entry of \<^verbatim>\<open>np.linalg.norm(doc_vectors, axis=1)\<close>, \<open>np_norm\<close>
  is \<^verbatim>\<open>np.linalg.norm(query_vec)\<close>, \<open>np_dot\<close> one entry of \<^verbatim>\<open>doc_vectors @ query_vec\<close>,
  \<open>np_add_eps\<close> one entry of an array \<^verbatim>\<open>+ 1e-10\<close>, \<open>np_scalar_add_eps\<close> the scalar
  \<^verbatim>\<open>+ 1e-10\<close> as the 32-bit float that is multiplied with \<^verbatim>\<open>doc_norms\<close>, \<open>np_mul\<close> and \<open>np_div\<close>
  one entry of \<^verbatim>\<open>*\<close> and of \<^verbatim>\<open>/\<close>. The type \<open>'f\<close> is the type of the float values, in the
  order in which NumPy sorts them.
\<close>

record 'f numpy =
  np_norm_axis1 :: "real list \<Rightarrow> 'f"
  np_norm :: "real list \<Rightarrow> 'f"
  np_dot :: "real list \<Rightarrow> real list \<Rightarrow> 'f"
  np_add_eps :: "'f \<Rightarrow> 'f"
  np_scalar_add_eps :: "'f \<Rightarrow> 'f"
  np_mul :: "'f \<Rightarrow> 'f \<Rightarrow> 'f"
  np_div :: "'f \<Rightarrow> 'f \<Rightarrow> 'f"

text \<open>
  \<^verbatim>\<open>doc_norms = np.linalg.norm(doc_vectors, axis=1) + 1e-10\<close>,
  \<^verbatim>\<open>query_norm = np.linalg.norm(query_vec) + 1e-10\<close> and
  \<^verbatim>\<open>similarities = (doc_vectors @ query_vec) / (doc_norms * query_norm)\<close>.
\<close>

definition similarities :: "'f numpy \<Rightarrow> real list list \<Rightarrow> real list \<Rightarrow> 'f list" where
  "similarities np doc_vectors query_vec =
     (let doc_norms = map (\<lambda>r. np_add_eps np (np_norm_axis1 np r)) doc_vectors;
          query_norm = np_scalar_add_eps np (np_norm np query_vec)
      in map (\<lambda>(r, doc_norm). np_div np (np_dot np r query_vec) (np_mul np doc_norm query_norm))
           (zip doc_vectors doc_norms))"

text \<open>
  \<^verbatim>\<open>ndarray.argsort()\<close> is NumPy's too: it returns the indices that put the array in
  ascending order, and with the default kind nothing is promised about the order of
  equal entries. It is a parameter of the search, and \<open>argsort_ok\<close> is its contract on one
  array.
\<close>

definition argsort_ok :: "('f :: linorder list \<Rightarrow> nat list) \<Rightarrow> 'f list \<Rightarrow> bool" where
  "argsort_ok argsort xs =
     (mset (argsort xs) = mset [0 ..< length xs] \<and> sorted (map (\<lambda>i. xs ! i) (argsort xs)))"

text \<open>\<^verbatim>\<open>similarities.argsort()[::-1][:top_k]\<close>.\<close>

definition top_indices :: "('f list \<Rightarrow> nat list) \<Rightarrow> 'f list \<Rightarrow> int \<Rightarrow> nat list" where
  "top_indices argsort sims top_k = py_slice_upto (rev (argsort sims)) top_k"

text \<open>
  The result list: \<^verbatim>\<open>self._chunks[idx]\<close> raises \<^verbatim>\<open>IndexError\<close> for an index beyond the
  chunk list; \<^verbatim>\<open>similarities[idx]\<close> is always in range, and \<^verbatim>\<open>float\<close> of a 32-bit float is
  the same value.
\<close>

fun results_of :: "document_chunk list \<Rightarrow> 'f list \<Rightarrow> nat list \<Rightarrow> error + 'f search_result list" where
  "results_of cs sims [] = Inr []"
| "results_of cs sims (idx # idxs) =
     (if idx < length cs
      then (case results_of cs sims idxs of
              Inl e \<Rightarrow> Inl e
            | Inr rs \<Rightarrow> Inr (\<lparr>r_chunk = cs ! idx, r_score = sims ! idx\<rparr> # rs))
      else Inl IndexError)"

definition search ::
  "'f numpy \<Rightarrow> ('f list \<Rightarrow> nat list) \<Rightarrow> store \<Rightarrow> embedding_backend \<Rightarrow> string \<Rightarrow> int \<Rightarrow>
   error + 'f search_result list" where
  "search np argsort st embedder query top_k =
     (case s_embeddings st of
        None \<Rightarrow> Inr []
      | Some doc_vectors \<Rightarrow>
          if s_chunks st = [] then Inr []
          else (case embed embedder [query] of
                  Inl e \<Rightarrow> Inl e
                | Inr (NotMat n) \<Rightarrow>
                    Inl (ValueError ''Query embedding must be a 2D array with a single row'')
                | Inr (Mat q) \<Rightarrow>
                    (case rows q of
                       [query_vec] \<Rightarrow>
                         if ncols doc_vectors \<noteq> length query_vec
                         then Inl (ValueError ''matmul: mismatch in core dimension'')
                         else (let sims = similarities np (rows doc_vectors) query_vec
                               in results_of (s_chunks st) sims (top_indices argsort sims top_k))
                     | _ \<Rightarrow>
                         Inl (ValueError ''Query embedding must be a 2D array with a single row''))))"

subsection \<open>IEEE 754 single precision\<close>

text \<open>
  The 32-bit floats themselves, to run the search on concrete vectors. A value is a
  finite number, an infinity or NaN; the two zeros are one value. The order is the one
  NumPy sorts by: \<open>-inf\<close>, the finite numbers, \<open>+inf\<close>, and NaN last.
\<close>

datatype float32 = NegInf | Finite real | PosInf | NaN

fun f32_le :: "float32 \<Rightarrow> float32 \<Rightarrow> bool" where
  "f32_le NegInf y = True"
| "f32_le x NaN = True"
| "f32_le (Finite x) (Finite y) = (x \<le> y)"
| "f32_le (Finite x) PosInf = True"
| "f32_le PosInf PosInf = True"
| "f32_le x y = False"

instantiation float32 :: linorder
begin

definition less_eq_float32 :: "float32 \<Rightarrow> float32 \<Rightarrow> bool" where
  "less_eq_float32 x y = f32_le x y"

definition less_float32 :: "float32 \<Rightarrow> float32 \<Rightarrow> bool" where
  "less_float32 x y = (f32_le x y \<and> \<not> f32_le y x)"

instance
proof
  fix x y z :: float32
  show "(x < y) = (x \<le> y \<and> \<not> y \<le> x)"
    by (simp add: less_float32_def less_eq_float32_def)
  show "x \<le> x"
    by (cases x) (simp_all add: less_eq_float32_def)
  show "x \<le> y \<Longrightarrow> y \<le> z \<Longrightarrow> x \<le> z"
    by (cases x; cases y; cases z) (simp_all add: less_eq_float32_def)
  show "x \<le> y \<Longrightarrow> y \<le> x \<Longrightarrow> x = y"
    by (cases x; cases y) (simp_all add: less_eq_float32_def)
  show "x \<le> y \<or> y \<le> x"
    by (cases x; cases y) (auto simp: less_eq_float32_def)
qed

end

text \<open>
  Rounding a real number to the nearest 32-bit float, ties to the even significand. The
  floats around \<open>x\<close> are the multiples of \<open>2 ^ (e - 23)\<close>, where \<open>e\<close> is the binary exponent
  of \<open>x\<close> and at least \<open>-126\<close> (below that the floats are subnormal and evenly spaced); a
  result of magnitude \<open>2 ^ 128\<close> or more overflows to an infinity.
\<close>

definition round_half_even :: "real \<Rightarrow> int" where
  "round_half_even y =
     (let f = \<lfloor>y\<rfloor> in
      if y - of_int f < 1 / 2 then f
      else if 1 / 2 < y - of_int f then f + 1
      else if even f then f else f + 1)"

definition f32_ulp :: "real \<Rightarrow> real" where
  "f32_ulp x = 2 powi (max (- 126) \<lfloor>log 2 \<bar>x\<bar>\<rfloor> - 23)"

definition f32_round :: "real \<Rightarrow> float32" where
  "f32_round x =
     (if x = 0 then Finite 0
      else (let r = of_int (round_half_even (x / f32_ulp x)) * f32_ulp x in
            if 2 ^ 128 \<le> r then PosInf
            else if r \<le> - (2 ^ 128) then NegInf
            else Finite r))"

text \<open>The arithmetic on floats: the exact result, rounded; the rules for infinities and NaN.\<close>

fun f32_neg :: "float32 \<Rightarrow> float32" where
  "f32_neg (Finite x) = Finite (- x)"
| "f32_neg PosInf = NegInf"
| "f32_neg NegInf = PosInf"
| "f32_neg NaN = NaN"

fun f32_add :: "float32 \<Rightarrow> float32 \<Rightarrow> float32" where
  "f32_add NaN y = NaN"
| "f32_add x NaN = NaN"
| "f32_add (Finite x) (Finite y) = f32_round (x + y)"
| "f32_add PosInf NegInf = NaN"
| "f32_add NegInf PosInf = NaN"
| "f32_add (Finite x) y = y"
| "f32_add x y = x"

fun f32_mul :: "float32 \<Rightarrow> float32 \<Rightarrow> float32" where
  "f32_mul NaN y = NaN"
| "f32_mul x NaN = NaN"
| "f32_mul (Finite x) (Finite y) = f32_round (x * y)"
| "f32_mul (Finite x) y = (if x = 0 then NaN else if 0 < x then y else f32_neg y)"
| "f32_mul x (Finite y) = (if y = 0 then NaN else if 0 < y then x else f32_neg x)"
| "f32_mul PosInf y = y"
| "f32_mul NegInf y = f32_neg y"

fun f32_div :: "float32 \<Rightarrow> float32 \<Rightarrow> float32" where
  "f32_div NaN y = NaN"
| "f32_div x NaN = NaN"
| "f32_div (Finite x) (Finite y) =
     (if y = 0 then (if x = 0 then NaN else if 0 < x then PosInf else NegInf)
      else f32_round (x / y))"
| "f32_div (Finite x) y = Finite 0"
| "f32_div x (Finite y) = (if 0 \<le> y then x else f32_neg x)"
| "f32_div x y = NaN"

fun f32_sqrt :: "float32 \<Rightarrow> float32" where
  "f32_sqrt (Finite x) = (if x < 0 then NaN else f32_round (sqrt x))"
| "f32_sqrt PosInf = PosInf"
| "f32_sqrt NegInf = NaN"
| "f32_sqrt NaN = NaN"

text \<open>
  The operations of the search in single precision: a norm is the square root of the
  sum of the squares, a matrix entry the sum of the products, and \<^verbatim>\<open>1e-10\<close> is added as
  the float nearest to it. The entries of a vector are floats already and rounding
  leaves them as they are. Sums are added up from left to right here; on the vectors of
  the examples below every square, product and sum is a small integer, which no order of
  summation and no fused multiplication rounds.
\<close>

definition f32_sum :: "float32 list \<Rightarrow> float32" where
  "f32_sum xs = foldl f32_add (Finite 0) xs"

definition f32_norm :: "real list \<Rightarrow> float32" where
  "f32_norm v = f32_sqrt (f32_sum (map (\<lambda>x. f32_mul (f32_round x) (f32_round x)) v))"

definition f32_eps :: float32 where
  "f32_eps = f32_round (1 / 10 ^ 10)"

definition float32_numpy :: "float32 numpy" where
  "float32_numpy =
     \<lparr>np_norm_axis1 = f32_norm,
      np_norm = f32_norm,
      np_dot = (\<lambda>u v. f32_sum (map (\<lambda>(x, y). f32_mul (f32_round x) (f32_round y)) (zip u v))),
      np_add_eps = (\<lambda>x. f32_add x f32_eps),
      np_scalar_add_eps = (\<lambda>x. f32_add x f32_eps),
      np_mul = f32_mul,
      np_div = f32_div\<rparr>"

section \<open>Example data\<close>

text \<open>
  A provider double that returns a fixed array, a document, and chunk records, used to
  run the definitions on concrete inputs.
\<close>

definition constant_embedder :: "ndarray \<Rightarrow> embedding_backend" where
  "constant_embedder a = \<lparr>model_name = ''test-model'', embed = (\<lambda>texts. Inr a)\<rparr>"

definition example_document :: document where
  "example_document =
     \<lparr>d_id = ''doc'', d_source = ''web'', d_content = ''hello'',
      d_metadata = [(''title'', PStr ''Guide'')]\<rparr>"

definition example_chunk :: "string \<Rightarrow> document_chunk" where
  "example_chunk i =
     \<lparr>c_id = i, c_document_id = ''doc'', c_source = ''web'', c_content = ''text'',
      c_metadata = []\<rparr>"

definition empty_directory :: directory where
  "empty_directory = \<lparr>meta_file = None, vectors_file = None\<rparr>"

definition empty_store :: store where
  "empty_store = \<lparr>s_chunks = [], s_embeddings = None, s_embedding_model = None\<rparr>"

text \<open>
  The store of the specification's ranking example: three chunks with the unit vectors
  \<open>[1, 0]\<close>, \<open>[0, 1]\<close>, \<open>[-1, 0]\<close>; a store whose two chunks have the same vector; a
  store whose vectors \<open>[3, 4]\<close> and \<open>[2, 0]\<close> are not of length one; and the provider
  double that embeds every query as \<open>[1, 0]\<close>.
\<close>

definition three_store :: store where
  "three_store =
     \<lparr>s_chunks = [example_chunk ''doc-0001'', example_chunk ''doc-0002'', example_chunk ''doc-0003''],
      s_embeddings = Some \<lparr>ncols = 2, rows = [[1, 0], [0, 1], [- 1, 0]]\<rparr>,
      s_embedding_model = Some ''test-model''\<rparr>"

definition tie_store :: store where
  "tie_store =
     \<lparr>s_chunks = [example_chunk ''doc-0001'', example_chunk ''doc-0002''],
      s_embeddings = Some \<lparr>ncols = 2, rows = [[1, 0], [1, 0]]\<rparr>,
      s_embedding_model = Some ''test-model''\<rparr>"


definition query_embedder :: embedding_backend where
  "query_embedder = constant_embedder (Mat \<lparr>ncols = 2, rows = [[1, 0]]\<rparr>)"

section \<open>Properties of the chunker\<close>

subsection \<open>The window loop in closed form\<close>

lemma while_eq_loop:
  "split_by_chars_while t cs (max 1 (cs - co)) start chunks
     = Some (split_by_chars_loop t cs co start chunks)"
proof (induction t cs co start chunks rule: split_by_chars_loop.induct)
  case (1 t cs co start chunks)
  show ?case
  proof (cases "start < int (length t)")
    case True
    then show ?thesis
      using "1.IH" by (subst split_by_chars_while.simps, subst split_by_chars_loop.simps) simp
  next
    case False
    then show ?thesis
      by (subst split_by_chars_while.simps, subst split_by_chars_loop.simps) simp
  qed
qed

lemma iters_step:
  fixes n start step :: int
  assumes "start < n" "1 \<le> step"
  shows "nat ((n - start + step - 1) div step) = Suc (nat ((n - (start + step) + step - 1) div step))"
proof -
  have "n - start + step - 1 = step + (n - start - 1)" by simp
  then have "(n - start + step - 1) div step = (n - start - 1) div step + 1"
    using assms by (metis add.commute div_add_self1 not_one_le_zero)
  moreover have "0 \<le> (n - start - 1) div step"
    using assms by (simp add: pos_imp_zdiv_nonneg_iff)
  moreover have "n - (start + step) + step - 1 = n - start - 1" by simp
  ultimately show ?thesis by simp
qed

lemma loop_closed:
  "split_by_chars_loop t cs co start chunks =
     chunks @ map (\<lambda>k. py_slice t (start + int k * max 1 (cs - co))
                          (min (int (length t)) (start + int k * max 1 (cs - co) + cs)))
                [0 ..< nat ((int (length t) - start + max 1 (cs - co) - 1) div max 1 (cs - co))]"
proof (induction t cs co start chunks rule: split_by_chars_loop.induct)
  case (1 t cs co start chunks)
  let ?n = "int (length t)" and ?s = "max 1 (cs - co)"
  show ?case
  proof (cases "start < ?n")
    case True
    have it: "nat ((?n - start + ?s - 1) div ?s) = Suc (nat ((?n - (start + ?s) + ?s - 1) div ?s))"
      by (rule iters_step) (use True in auto)
    show ?thesis
      apply (subst split_by_chars_loop.simps)
      apply (simp only: True if_True "1.IH"[OF True] it)
      apply (simp add: upt_conv_Cons del: upt_Suc)
      apply (simp add: map_Suc_upt[symmetric] del: upt_Suc)
      apply (simp add: algebra_simps)
      done
  next
    case False
    then have "(?n - start + ?s - 1) div ?s \<le> 0"
      by (smt (verit) div_nonneg_neg_le0 zdiv_eq_0_iff pos_imp_zdiv_neg_iff)
    with False show ?thesis
      by (subst split_by_chars_loop.simps) simp
  qed
qed

lemma split_by_chars_closed:
  "split_by_chars t cs co =
     map (\<lambda>k. py_slice t (int k * max 1 (cs - co))
                 (min (int (length t)) (int k * max 1 (cs - co) + cs)))
       [0 ..< nat ((int (length t) + max 1 (cs - co) - 1) div max 1 (cs - co))]"
  unfolding split_by_chars_def by (subst loop_closed) simp


lemma py_slice_window:
  assumes "0 \<le> a" "0 \<le> c"
  shows "py_slice t a (min (int (length t)) (a + c)) = take (nat c) (drop (nat a) t)"
proof (cases "nat a < length t")
  case True
  have "slice_bound (length t) (min (int (length t)) (a + c)) - slice_bound (length t) a
        = min (length t - nat a) (nat c)"
    using assms True by (auto simp: slice_bound_def min_def)
  then show ?thesis
    using assms True by (simp add: py_slice_def Let_def slice_bound_def min_def)
next
  case False
  then show ?thesis using assms by (simp add: py_slice_def Let_def slice_bound_def)
qed

subsection \<open>Termination of the character strategy\<close>

text \<open>
  Claim C5. For every text and all integer parameters, also when
  \<open>chunk_overlap \<ge> chunk_size\<close> or when a parameter is negative, the loop of
  \<^verbatim>\<open>_split_by_chars\<close> returns: the step \<open>max 1 (chunk_size - chunk_overlap)\<close> is at least
  1, the loop (with not returning as the value \<open>None\<close>) returns the chunk list, and it
  does so after exactly \<open>\<lceil>len(text) / step\<rceil>\<close> iterations, one chunk each.
\<close>

theorem split_by_chars_terminates:
  "1 \<le> max 1 (cs - co)
   \<and> split_by_chars_run t cs co = Some (split_by_chars t cs co)
   \<and> int (length (split_by_chars t cs co))
       = (int (length t) + max 1 (cs - co) - 1) div max 1 (cs - co)"
proof -
  have nn: "0 \<le> (int (length t) + max 1 (cs - co) - 1) div max 1 (cs - co)"
    by (simp add: pos_imp_zdiv_nonneg_iff)
  have run: "split_by_chars_run t cs co = Some (split_by_chars t cs co)"
    by (simp only: split_by_chars_run_def split_by_chars_def while_eq_loop)
  have "length (split_by_chars t cs co)
        = nat ((int (length t) + max 1 (cs - co) - 1) div max 1 (cs - co))"
    by (simp only: split_by_chars_closed length_map length_upt diff_zero)
  with nn run show ?thesis by simp
qed

lemma count_iff:
  fixes st :: nat
  assumes "0 < st"
  shows "k < (m + st - 1) div st \<longleftrightarrow> k * st < m"
proof -
  have "k < (m + st - 1) div st \<longleftrightarrow> Suc k \<le> (m + st - 1) div st" by auto
  also have "\<dots> \<longleftrightarrow> Suc k * st \<le> m + st - 1"
    using assms by (simp only: less_eq_div_iff_mult_less_eq)
  also have "\<dots> \<longleftrightarrow> k * st < m" using assms by auto
  finally show ?thesis .
qed

lemma split_by_chars_windows:
  assumes "0 \<le> co" "co < cs"
  shows "split_by_chars t cs co =
           map (\<lambda>k. take (nat cs) (drop (k * nat (cs - co)) t))
             [0 ..< (length t + nat (cs - co) - 1) div nat (cs - co)]"
proof -
  let ?st = "nat (cs - co)"
  have s: "max 1 (cs - co) = int ?st" using assms by simp
  have n: "nat ((int (length t) + int ?st - 1) div int ?st) = (length t + ?st - 1) div ?st"
  proof -
    have "int (length t) + int ?st - 1 = int (length t + ?st - 1)" using assms by auto
    then show ?thesis by (simp only: zdiv_int[symmetric] nat_int)
  qed
  have w: "py_slice t (int k * int ?st) (min (int (length t)) (int k * int ?st + cs))
           = take (nat cs) (drop (k * ?st) t)" for k
    using py_slice_window[of "int k * int ?st" cs t] assms
    by (simp add: nat_mult_distrib)
  show ?thesis
    by (simp only: split_by_chars_closed s n w)
qed

subsection \<open>Coverage and overlap of the character strategy\<close>

text \<open>
  Claim C4. For a non-empty text and \<open>0 \<le> chunk_overlap < chunk_size\<close>, the character
  strategy (no tokenizer) returns a non-empty list; chunk \<open>i\<close> is the substring of the
  text that starts at \<open>i * (chunk_size - chunk_overlap)\<close> and is at most \<open>chunk_size\<close>
  long, and is not empty; every position of the text lies in the span of some chunk, which
  holds the text's character there; and where chunk \<open>i\<close> has a successor and the text
  still holds \<open>chunk_size\<close> characters from the start of chunk \<open>i\<close>, the two spans share
  exactly \<open>chunk_overlap\<close> positions: the tail of chunk \<open>i\<close> after the step is the
  first \<open>chunk_overlap\<close> characters of chunk \<open>i + 1\<close>. The empty text gives the empty
  list, whatever the tokenizer and the parameters.
\<close>

theorem chunk_text_chars_cover:
  assumes "t \<noteq> []" "0 \<le> co" "co < cs"
  shows "chunk_text None t cs co \<noteq> []
    \<and> (\<forall>i < length (chunk_text None t cs co).
          chunk_text None t cs co ! i = take (nat cs) (drop (i * nat (cs - co)) t)
          \<and> chunk_text None t cs co ! i \<noteq> []
          \<and> int (length (chunk_text None t cs co ! i)) \<le> cs)
    \<and> (\<forall>p < length t. \<exists>i < length (chunk_text None t cs co).
          i * nat (cs - co) \<le> p
          \<and> p < i * nat (cs - co) + length (chunk_text None t cs co ! i)
          \<and> chunk_text None t cs co ! i ! (p - i * nat (cs - co)) = t ! p)
    \<and> (\<forall>i. Suc i < length (chunk_text None t cs co)
             \<and> i * nat (cs - co) + nat cs \<le> length t \<longrightarrow>
          i * nat (cs - co) + length (chunk_text None t cs co ! i) - Suc i * nat (cs - co)
            = nat co
          \<and> nat co \<le> length (chunk_text None t cs co ! Suc i)
          \<and> drop (nat (cs - co)) (chunk_text None t cs co ! i)
              = take (nat co) (chunk_text None t cs co ! Suc i))
    \<and> chunk_text tok [] cs' co' = []"
proof -
  let ?st = "nat (cs - co)" and ?c = "nat cs"
  let ?N = "(length t + ?st - 1) div ?st"
  let ?ch = "chunk_text None t cs co"
  have st: "0 < ?st" "?st \<le> ?c" "?c = ?st + nat co" using assms by auto
  have ch: "?ch = map (\<lambda>k. take ?c (drop (k * ?st) t)) [0 ..< ?N]"
    using assms by (simp add: chunk_text_def split_by_chars_windows)
  have len: "length ?ch = ?N" by (simp add: ch)
  have nth: "?ch ! i = take ?c (drop (i * ?st) t)" if "i < ?N" for i
    using that by (simp add: ch)
  have lt: "i < ?N \<longleftrightarrow> i * ?st < length t" for i
    using st(1) by (rule count_iff)
  have c1: "?ch \<noteq> []"
  proof -
    have "0 < ?N" using lt[of 0] assms(1) by simp
    then show ?thesis using len by auto
  qed
  have c2: "?ch ! i = take ?c (drop (i * ?st) t) \<and> ?ch ! i \<noteq> [] \<and> int (length (?ch ! i)) \<le> cs"
    if "i < length ?ch" for i
  proof -
    have i: "i < ?N" using that len by simp
    then have "i * ?st < length t" using lt by simp
    then show ?thesis using nth[OF i] st assms by auto
  qed
  have c3: "\<exists>i < length ?ch. i * ?st \<le> p \<and> p < i * ?st + length (?ch ! i)
              \<and> ?ch ! i ! (p - i * ?st) = t ! p" if "p < length t" for p
  proof -
    define i where "i = p div ?st"
    have a: "i * ?st \<le> p" unfolding i_def by simp
    have b: "p < i * ?st + ?st" unfolding i_def using st(1)
      by (metis add.commute div_mult_mod_eq mod_less_divisor nat_add_left_cancel_less)
    have i: "i < ?N" using lt[of i] a that by simp
    have l: "length (?ch ! i) = min ?c (length t - i * ?st)"
      using nth[OF i] by (simp add: min.commute)
    have in_chunk: "p - i * ?st < length (?ch ! i)"
    proof (cases "?c \<le> length t - i * ?st")
      case True
      then have "length (?ch ! i) = ?c" using l by simp
      then show ?thesis using b st(2) a by linarith
    next
      case False
      then have "length (?ch ! i) = length t - i * ?st" using l by simp
      then show ?thesis using a that by linarith
    qed
    then have "p < i * ?st + length (?ch ! i)" using a by linarith
    moreover have "?ch ! i ! (p - i * ?st) = t ! p"
      using in_chunk a that by (simp add: nth[OF i])
    ultimately show ?thesis using i a len by auto
  qed
  have c4: "i * ?st + length (?ch ! i) - Suc i * ?st = nat co
            \<and> nat co \<le> length (?ch ! Suc i)
            \<and> drop ?st (?ch ! i) = take (nat co) (?ch ! Suc i)"
    if "Suc i < length ?ch" "i * ?st + ?c \<le> length t" for i
  proof -
    define q where "q = i * ?st"
    have i: "i < ?N" "Suc i < ?N" using that len by auto
    have sq: "Suc i * ?st = q + ?st" by (simp add: q_def)
    have le: "q + ?st + nat co \<le> length t" using that(2) st(3) by (simp add: q_def)
    have ci: "?ch ! i = take ?c (drop q t)" using nth[OF i(1)] by (simp only: q_def)
    have cs: "?ch ! Suc i = take ?c (drop (q + ?st) t)" using nth[OF i(2)] by (simp only: sq)
    have l: "length (?ch ! i) = ?c" using le st(3) by (simp add: ci)
    have l': "nat co \<le> length (?ch ! Suc i)" using le st(3) by (simp add: cs)
    have "drop ?st (?ch ! i) = take (?c - ?st) (drop ?st (drop q t))"
      by (simp only: ci drop_take)
    also have "\<dots> = take (nat co) (drop (q + ?st) t)"
      using st(3) by (simp add: add.commute)
    also have "\<dots> = take (nat co) (?ch ! Suc i)"
      using st(3) by (simp add: cs min_def)
    finally have d: "drop ?st (?ch ! i) = take (nat co) (?ch ! Suc i)" .
    have "i * ?st + length (?ch ! i) - Suc i * ?st = nat co"
      using st(3) by (simp only: l sq) (simp add: q_def)
    with l' d show ?thesis by simp
  qed
  have c5: "chunk_text tok [] cs' co' = []" by (simp add: chunk_text_def)
  from c1 c2 c3 c4 c5 show ?thesis by blast
qed

theorem chunk_text_chars_cover_witness:
  "''abcdef'' \<noteq> [] \<and> (0::int) \<le> 2 \<and> (2::int) < 4
   \<and> chunk_text None ''abcdef'' 4 2 = [''abcd'', ''cdef'', ''ef'']
   \<and> drop 2 (chunk_text None ''abcdef'' 4 2 ! 0) = take 2 (chunk_text None ''abcdef'' 4 2 ! 1)"
proof -
  have h: "''abcdef'' \<noteq> []" "(0::int) \<le> 2" "(2::int) < 4" by simp_all
  have v: "chunk_text None ''abcdef'' 4 2 = [''abcd'', ''cdef'', ''ef'']"
    by code_simp
  from chunk_text_chars_cover[OF h, of None 0 0]
  have "Suc 0 < length (chunk_text None ''abcdef'' 4 2)
             \<and> 0 * nat (4 - 2) + nat 4 \<le> length ''abcdef'' \<longrightarrow>
        drop (nat (4 - 2)) (chunk_text None ''abcdef'' 4 2 ! 0)
              = take (nat 2) (chunk_text None ''abcdef'' 4 2 ! Suc 0)"
    by blast
  then have "drop 2 (chunk_text None ''abcdef'' 4 2 ! 0) = take 2 (chunk_text None ''abcdef'' 4 2 ! 1)"
    by (simp add: v)
  with h v show ?thesis by simp
qed

subsection \<open>Identifiers\<close>

lemma of_char_digit_char:
  assumes "d < 10"
  shows "(of_char (digit_char d) :: nat) = 48 + d"
proof -
  have "d \<in> {0, 1, 2, 3, 4, 5, 6, 7, 8, 9}" using assms by auto
  then show ?thesis by (auto simp: digit_char_def)
qed

lemma digits_val_append:
  "digits_val (xs @ ys) = digits_val xs * 10 ^ length ys + digits_val ys"
  by (induction xs) (simp_all add: algebra_simps power_add)

lemma str_nat_digits: "is_digits (str_nat n)"
proof (induction n rule: str_nat.induct)
  case (1 n)
  show ?case
  proof (cases "n < 10")
    case True
    then show ?thesis
      by (subst str_nat.simps) (simp add: is_digits_def of_char_digit_char)
  next
    case False
    then show ?thesis
      using "1.IH" by (subst str_nat.simps) (simp add: is_digits_def of_char_digit_char)
  qed
qed

lemma digits_val_str_nat: "digits_val (str_nat n) = n"
proof (induction n rule: str_nat.induct)
  case (1 n)
  show ?case
  proof (cases "n < 10")
    case True
    then show ?thesis
      by (subst str_nat.simps) (simp add: of_char_digit_char)
  next
    case False
    then show ?thesis
      using "1.IH" by (subst str_nat.simps) (simp add: digits_val_append of_char_digit_char)
  qed
qed

lemma str_nat_nonempty: "str_nat n \<noteq> []"
  by (subst str_nat.simps) simp

lemma ceil_log10_one: "ceil_log10 (Suc 0) = 0"
  by (subst ceil_log10.simps) simp

lemma ceil_log10_step: "1 < m \<Longrightarrow> ceil_log10 m = Suc (ceil_log10 ((m + 9) div 10))"
  by (subst ceil_log10.simps) simp

lemma length_str_nat: "0 < n \<Longrightarrow> length (str_nat n) = ceil_log10 (n + 1)"
proof (induction n rule: str_nat.induct)
  case (1 n)
  show ?case
  proof (cases "n < 10")
    case True
    have "(n + 1 + 9) div 10 = 1" using True "1.prems" by simp
    then have "ceil_log10 (n + 1) = 1"
      using "1.prems" ceil_log10_step[of "n + 1"] by (simp add: ceil_log10_one)
    then show ?thesis using True by (subst str_nat.simps) simp
  next
    case False
    have d: "(n + 1 + 9) div 10 = n div 10 + 1" by simp
    have "ceil_log10 (n + 1) = Suc (ceil_log10 (n div 10 + 1))"
      using False ceil_log10_step[of "n + 1"] by (simp add: d)
    moreover have "length (str_nat (n div 10)) = ceil_log10 (n div 10 + 1)"
      using "1.IH" False by simp
    ultimately show ?thesis using False by (subst str_nat.simps) simp
  qed
qed

lemma digits_val_bound: "is_digits s \<Longrightarrow> digits_val s < 10 ^ length s"
proof (induction s)
  case Nil
  then show ?case by simp
next
  case (Cons c s)
  then have "of_char c - 48 \<le> (9::nat)" and "digits_val s < 10 ^ length s"
    by (auto simp: is_digits_def)
  then have "(of_char c - 48) * 10 ^ length s + digits_val s < 9 * 10 ^ length s + 10 ^ length s"
    by (meson add_le_less_mono mult_le_mono1)
  then show ?case by simp
qed

lemma digits_lex:
  "length xs = length ys \<Longrightarrow> is_digits xs \<Longrightarrow> is_digits ys \<Longrightarrow>
   digits_val xs < digits_val ys \<Longrightarrow> xs < ys"
proof (induction xs ys rule: list_induct2)
  case Nil
  then show ?case by simp
next
  case (Cons a xs b ys)
  have dx: "is_digits xs" and dy: "is_digits ys"
    and ra: "48 \<le> (of_char a :: nat)" and rb: "48 \<le> (of_char b :: nat)"
    using Cons.prems by (auto simp: is_digits_def)
  have bx: "digits_val xs < 10 ^ length xs" and byy: "digits_val ys < 10 ^ length ys"
    using dx dy by (auto intro: digits_val_bound)
  consider "(of_char a :: nat) < of_char b" | "a = b" | "(of_char b :: nat) < of_char a"
    by (metis linorder_neqE_nat of_char_eq_iff)
  then show ?case
  proof cases
    case 1
    then show ?thesis by (simp add: less_char_def)
  next
    case 2
    then have "digits_val xs < digits_val ys" using Cons.prems(3) Cons.hyps by simp
    then have "xs < ys" using Cons.IH dx dy by simp
    then show ?thesis using 2 by simp
  next
    case 3
    then have "(of_char b :: nat) - 48 + 1 \<le> (of_char a :: nat) - 48" using ra rb by linarith
    then have "((of_char b :: nat) - 48 + 1) * 10 ^ length ys
               \<le> ((of_char a :: nat) - 48) * 10 ^ length ys"
      by (rule mult_le_mono1)
    then have "digits_val (b # ys) < digits_val (a # xs)"
      using byy Cons.hyps by (simp add: algebra_simps)
    then show ?thesis using Cons.prems(3) by simp
  qed
qed


lemma zfill_str_nat:
  "zfill (str_nat k) w = replicate (w - length (str_nat k)) (CHR ''0'') @ str_nat k"
proof -
  obtain c r where cr: "str_nat k = c # r"
    using str_nat_nonempty[of k] by (cases "str_nat k") auto
  have "is_digits (c # r)" using str_nat_digits[of k] cr by simp
  then have "48 \<le> (of_char c :: nat)" by (simp add: is_digits_def)
  then have "c \<noteq> CHR ''+''" "c \<noteq> CHR ''-''" by auto
  then show ?thesis by (simp add: zfill_def cr)
qed

lemma digits_replicate_zero: "is_digits (replicate k (CHR ''0''))"
  by (simp add: is_digits_def list_all_iff)

lemma digits_val_replicate_zero: "digits_val (replicate k (CHR ''0'')) = 0"
  by (induction k) simp_all

lemma is_digits_append: "is_digits (xs @ ys) \<longleftrightarrow> is_digits xs \<and> is_digits ys"
  by (simp add: is_digits_def)

lemma str_nat_lower: "0 < n \<Longrightarrow> 10 ^ (length (str_nat n) - 1) \<le> n"
proof (induction n rule: str_nat.induct)
  case (1 n)
  show ?case
  proof (cases "n < 10")
    case True
    then show ?thesis using "1.prems" by (subst str_nat.simps) simp
  next
    case False
    then have ih: "10 ^ (length (str_nat (n div 10)) - 1) \<le> n div 10"
      using "1.IH" by simp
    have "0 < length (str_nat (n div 10))"
      using str_nat_nonempty[of "n div 10"] by (cases "str_nat (n div 10)") auto
    then have "(10::nat) ^ length (str_nat (n div 10))
               = 10 * 10 ^ (length (str_nat (n div 10)) - 1)"
      by (cases "length (str_nat (n div 10))") simp_all
    also have "\<dots> \<le> 10 * (n div 10)" using ih by simp
    also have "\<dots> \<le> n" by simp
    finally show ?thesis using False by (subst str_nat.simps) simp
  qed
qed

lemma str_nat_upper: "n < 10 ^ length (str_nat n)"
  using digits_val_bound[OF str_nat_digits[of n]] by (simp add: digits_val_str_nat)

lemma length_str_nat_mono:
  assumes "i \<le> n"
  shows "length (str_nat i) \<le> length (str_nat n)"
proof (cases "i = 0")
  case True
  have "length (str_nat 0) = 1" by (subst str_nat.simps) simp
  moreover have "1 \<le> length (str_nat n)"
    using str_nat_nonempty[of n] by (simp add: Suc_le_eq)
  ultimately show ?thesis using True by simp
next
  case False
  show ?thesis
  proof (rule ccontr)
    assume "\<not> ?thesis"
    then have "length (str_nat n) \<le> length (str_nat i) - 1" by simp
    then have "(10::nat) ^ length (str_nat n) \<le> 10 ^ (length (str_nat i) - 1)"
      by (simp add: power_increasing)
    also have "\<dots> \<le> i" using False str_nat_lower[of i] by simp
    also have "\<dots> \<le> n" by (rule assms)
    finally show False using str_nat_upper[of n] by simp
  qed
qed

lemma append_less_append: "(p @ xs < p @ ys) \<longleftrightarrow> (xs < (ys :: 'a :: linorder list))"
  by (induction p) simp_all

lemma padded_props:
  assumes "length (str_nat k) \<le> w"
  shows "length (padded w k) = w" "is_digits (padded w k)" "digits_val (padded w k) = k"
proof -
  show "length (padded w k) = w" using assms by (simp add: padded_def)
  show "is_digits (padded w k)"
    by (simp only: padded_def is_digits_append digits_replicate_zero str_nat_digits simp_thms)
  show "digits_val (padded w k) = k"
    by (simp only: padded_def digits_val_append digits_val_replicate_zero digits_val_str_nat
          mult_0 add_0)
qed

lemma ceil_log10_bounds:
  assumes "1 < m"
  shows "10 ^ (ceil_log10 m - 1) < m \<and> m \<le> 10 ^ ceil_log10 m"
proof -
  obtain n where n: "m = n + 1" "0 < n" using assms by (cases m) auto
  have k: "ceil_log10 (Suc n) = length (str_nat n)" using n length_str_nat[of n] by simp
  have "10 ^ (length (str_nat n) - 1) < Suc n" using str_nat_lower[of n] n by simp
  moreover have "Suc n \<le> 10 ^ length (str_nat n)" using str_nat_upper[of n] by simp
  ultimately show ?thesis using n by (simp add: k)
qed

lemma ceil_log10_is_ceiling_log:
  assumes "0 < m"
  shows "int (ceil_log10 m) = \<lceil>log 10 (real m)\<rceil>"
proof (cases "m = 1")
  case True
  then show ?thesis by (simp add: ceil_log10_one)
next
  case False
  then have m: "1 < m" using assms by simp
  have pos: "0 < ceil_log10 m" using m ceil_log10_step[of m] by simp
  have lo: "real (ceil_log10 m - 1) < log 10 (real m)"
    using ceil_log10_bounds[OF m] by (intro less_log_of_power) simp_all
  have hi: "log 10 (real m) \<le> real (ceil_log10 m)"
    using ceil_log10_bounds[OF m] assms by (intro log_of_power_le) simp_all
  have "\<lceil>log 10 (real m)\<rceil> = int (ceil_log10 m)"
    using lo hi pos by (intro ceiling_unique) (simp_all add: of_nat_diff)
  then show ?thesis by simp
qed

lemma enumerate_chunks_eq:
  "enumerate_chunks chunks p =
     map (\<lambda>idx. p @ ''-'' @ padded (max 4 (length (str_nat (length chunks)))) idx)
       [1 ..< Suc (length chunks)]"
proof (cases "chunks = []")
  case True
  then show ?thesis by (simp add: enumerate_chunks_def)
next
  case False
  then have "0 < length chunks" by simp
  then have "ceil_log10 (length chunks + 1) = length (str_nat (length chunks))"
    by (simp add: length_str_nat)
  then show ?thesis
    using False by (simp add: enumerate_chunks_def Let_def zfill_str_nat padded_def)
qed

text \<open>
  Claim C8. \<^verbatim>\<open>enumerate_chunks\<close> returns one identifier per chunk; identifier \<open>i\<close>
  (0-based) is the prefix, a hyphen, and the decimal digits of the ordinal \<open>i + 1\<close> with
  zeros in front up to the width \<open>max 4 d\<close>, where \<open>d\<close> is the number of decimal digits
  of the largest ordinal (the chunk count); no ordinal is wider than that. The identifiers
  are pairwise distinct, and an earlier one is lexicographically (by code point) below a
  later one. This holds for every chunk count, so for 1, 9, 10, 9999 and 10000. The
  empty input gives the empty output.
\<close>

theorem enumerate_chunks_ids:
  "length (enumerate_chunks chunks p) = length chunks
   \<and> (\<forall>i < length chunks.
         enumerate_chunks chunks p ! i =
           p @ ''-'' @ replicate (max 4 (length (str_nat (length chunks))) - length (str_nat (Suc i)))
                         (CHR ''0'') @ str_nat (Suc i)
         \<and> length (str_nat (Suc i)) \<le> max 4 (length (str_nat (length chunks)))
         \<and> digits_val (str_nat (Suc i)) = Suc i)
   \<and> distinct (enumerate_chunks chunks p)
   \<and> (\<forall>i j. i < j \<and> j < length chunks \<longrightarrow>
         enumerate_chunks chunks p ! i < enumerate_chunks chunks p ! j)
   \<and> enumerate_chunks [] p = []"
proof -
  let ?w = "max 4 (length (str_nat (length chunks)))"
  let ?ids = "enumerate_chunks chunks p"
  have len: "length ?ids = length chunks" by (simp add: enumerate_chunks_eq del: upt_Suc)
  have nth: "?ids ! i = p @ ''-'' @ padded ?w (Suc i)" if "i < length chunks" for i
    using that by (simp add: enumerate_chunks_eq nth_map_upt del: upt_Suc)
  have fits: "length (str_nat (Suc i)) \<le> ?w" if "i < length chunks" for i
    using length_str_nat_mono[of "Suc i" "length chunks"] that by simp
  have lt: "?ids ! i < ?ids ! j" if "i < j" "j < length chunks" for i j
  proof -
    have "padded ?w (Suc i) < padded ?w (Suc j)"
      using that fits[of i] fits[of j]
      by (intro digits_lex) (simp_all add: padded_props)
    then show ?thesis using that by (simp add: nth append_less_append)
  qed
  have "sorted_wrt (<) ?ids"
    using lt len by (simp add: sorted_wrt_iff_nth_less)
  then have dist: "distinct ?ids" by (simp add: strict_sorted_iff)
  have c2: "?ids ! i = p @ ''-'' @ replicate (?w - length (str_nat (Suc i))) (CHR ''0'') @ str_nat (Suc i)
            \<and> length (str_nat (Suc i)) \<le> ?w \<and> digits_val (str_nat (Suc i)) = Suc i"
    if "i < length chunks" for i
    using that nth[OF that] fits[OF that] by (simp add: padded_def digits_val_str_nat)
  have e: "enumerate_chunks [] p = []" by (simp add: enumerate_chunks_def)
  show ?thesis
  proof (intro conjI allI impI)
    show "length ?ids = length chunks" by (rule len)
    show "distinct ?ids" by (rule dist)
    show "enumerate_chunks [] p = []" by (rule e)
  qed (use c2 lt in simp_all)
qed

lemma str_nat_1: "str_nat 1 = ''1''" by (simp add: str_nat.simps digit_char_def)
lemma str_nat_9999: "str_nat 9999 = ''9999''" by (simp add: str_nat.simps digit_char_def)
lemma str_nat_10000: "str_nat 10000 = ''10000''" by (simp add: str_nat.simps digit_char_def)
lemma str_nat_Suc0: "str_nat (Suc 0) = ''1''" by (simp add: str_nat.simps digit_char_def)
lemmas str_nat_examples = str_nat_1 str_nat_Suc0 str_nat_9999 str_nat_10000

theorem enumerate_chunks_ids_witness:
  "(0::nat) < length (replicate 10000 ('''' :: string))
   \<and> enumerate_chunks (replicate 10000 '''') ''doc'' ! 0 = ''doc-00001''
   \<and> enumerate_chunks (replicate 10000 '''') ''doc'' ! 9999 = ''doc-10000''
   \<and> enumerate_chunks (replicate 10000 '''') ''doc'' ! 8 < enumerate_chunks (replicate 10000 '''') ''doc'' ! 9
   \<and> enumerate_chunks (replicate 9999 '''') ''doc'' ! 9998 = ''doc-9999''"
proof -
  let ?a = "enumerate_chunks (replicate 10000 '''') ''doc''"
  let ?b = "enumerate_chunks (replicate 9999 '''') ''doc''"
  note a = enumerate_chunks_ids[of "replicate 10000 ''''" "''doc''"]
  note b = enumerate_chunks_ids[of "replicate 9999 ''''" "''doc''"]
  from a have n: "\<forall>i < length (replicate 10000 ('''' :: string)). ?a ! i =
           ''doc'' @ ''-'' @ replicate (max 4 (length (str_nat (length (replicate 10000 ('''' :: string)))))
                  - length (str_nat (Suc i))) (CHR ''0'') @ str_nat (Suc i)"
    by blast
  from a have l: "\<forall>i j. i < j \<and> j < length (replicate 10000 ('''' :: string)) \<longrightarrow> ?a ! i < ?a ! j"
    by blast
  from b have m: "\<forall>i < length (replicate 9999 ('''' :: string)). ?b ! i =
           ''doc'' @ ''-'' @ replicate (max 4 (length (str_nat (length (replicate 9999 ('''' :: string)))))
                  - length (str_nat (Suc i))) (CHR ''0'') @ str_nat (Suc i)"
    by blast
  have s: "Suc 9999 = 10000" "Suc 9998 = 9999" by simp_all
  have "?a ! 0 = ''doc-00001''"
    using n[rule_format, of 0] by (simp add: s str_nat_examples)
  moreover have "?a ! 9999 = ''doc-10000''"
    using n[rule_format, of 9999] by (simp add: s str_nat_examples)
  moreover have "?a ! 8 < ?a ! 9"
    using l[rule_format, of 8 9] by simp
  moreover have "?b ! 9998 = ''doc-9999''"
    using m[rule_format, of 9998] by (simp add: s str_nat_examples)
  ultimately show ?thesis by simp
qed

section \<open>Properties of the domain models\<close>

subsection \<open>Citations\<close>

text \<open>
  The preference order by presence alone is not what the code computes: a title that is
  present but empty is passed over for the path.
\<close>

theorem citation_empty_title_counterexample:
  "citation \<lparr>r_chunk = \<lparr>c_id = ''doc-0001'', c_document_id = ''doc'', c_source = ''web'',
                 c_content = ''text'',
                 c_metadata = [(''title'', PStr ''''), (''path'', PStr ''docs/a.md'')]\<rparr>,
             r_score = (1 :: real)\<rparr>
     = Some (PStr ''docs/a.md'')
   \<and> citation_by_presence \<lparr>r_chunk = \<lparr>c_id = ''doc-0001'', c_document_id = ''doc'',
                 c_source = ''web'', c_content = ''text'',
                 c_metadata = [(''title'', PStr ''''), (''path'', PStr ''docs/a.md'')]\<rparr>,
             r_score = (1 :: real)\<rparr>
     = Some (PStr '''')
   \<and> citation \<lparr>r_chunk = \<lparr>c_id = ''doc-0001'', c_document_id = ''doc'', c_source = ''web'',
                 c_content = ''text'',
                 c_metadata = [(''title'', PStr ''''), (''path'', PStr ''docs/a.md'')]\<rparr>,
             r_score = (1 :: real)\<rparr>
     \<noteq> citation_by_presence \<lparr>r_chunk = \<lparr>c_id = ''doc-0001'', c_document_id = ''doc'',
                 c_source = ''web'', c_content = ''text'',
                 c_metadata = [(''title'', PStr ''''), (''path'', PStr ''docs/a.md'')]\<rparr>,
             r_score = (1 :: real)\<rparr>"
  by (simp add: citation_def citation_by_presence_def dict_get_def)

text \<open>
  Claim C10, amended. The citation is the title, formatted as a string, when the key
  \<^verbatim>\<open>title\<close> is present with a true value (for a string: a non-empty one, which is then
  returned as it is); otherwise, that is when the title is absent or false (empty), it is
  the path value when the key \<^verbatim>\<open>path\<close> is present with a true value, and none when the
  path is absent or false too.
\<close>

theorem citation_by_truth_value:
  "(\<forall>t. map_of (c_metadata (r_chunk r)) ''title'' = Some t \<and> truthy t \<longrightarrow>
        citation r = Some (PStr (py_str t)))
   \<and> (\<forall>s. map_of (c_metadata (r_chunk r)) ''title'' = Some (PStr s) \<and> s \<noteq> [] \<longrightarrow>
        citation r = Some (PStr s))
   \<and> ((map_of (c_metadata (r_chunk r)) ''title'' = None
        \<or> (\<exists>t. map_of (c_metadata (r_chunk r)) ''title'' = Some t \<and> \<not> truthy t)) \<longrightarrow>
       (\<forall>p. map_of (c_metadata (r_chunk r)) ''path'' = Some p \<and> truthy p \<longrightarrow>
            citation r = Some p)
       \<and> ((map_of (c_metadata (r_chunk r)) ''path'' = None
            \<or> (\<exists>p. map_of (c_metadata (r_chunk r)) ''path'' = Some p \<and> \<not> truthy p)) \<longrightarrow>
           citation r = None))"
  by (auto simp: citation_def dict_get_def Let_def)

theorem citation_by_truth_value_witness:
  "citation \<lparr>r_chunk = \<lparr>c_id = ''doc-0001'', c_document_id = ''doc'', c_source = ''web'',
                 c_content = ''text'',
                 c_metadata = [(''title'', PStr ''Guide''), (''path'', PStr ''docs/a.md'')]\<rparr>,
             r_score = (1 :: real)\<rparr> = Some (PStr ''Guide'')
   \<and> citation \<lparr>r_chunk = \<lparr>c_id = ''doc-0001'', c_document_id = ''doc'', c_source = ''web'',
                 c_content = ''text'',
                 c_metadata = [(''title'', PStr ''''), (''path'', PStr ''docs/a.md'')]\<rparr>,
             r_score = (1 :: real)\<rparr> = Some (PStr ''docs/a.md'')
   \<and> citation \<lparr>r_chunk = \<lparr>c_id = ''doc-0001'', c_document_id = ''doc'', c_source = ''web'',
                 c_content = ''text'', c_metadata = [(''url'', PStr ''http://x'')]\<rparr>,
             r_score = (1 :: real)\<rparr> = None"
proof -
  let ?c = "\<lambda>m. \<lparr>r_chunk = \<lparr>c_id = ''doc-0001'', c_document_id = ''doc'', c_source = ''web'',
                 c_content = ''text'', c_metadata = m\<rparr>, r_score = (1 :: real)\<rparr>"
  have a: "citation (?c [(''title'', PStr ''Guide''), (''path'', PStr ''docs/a.md'')]) = Some (PStr ''Guide'')"
    using citation_by_truth_value[of "?c [(''title'', PStr ''Guide''), (''path'', PStr ''docs/a.md'')]"]
    by simp
  have b: "citation (?c [(''title'', PStr ''''), (''path'', PStr ''docs/a.md'')]) = Some (PStr ''docs/a.md'')"
    using citation_by_truth_value[of "?c [(''title'', PStr ''''), (''path'', PStr ''docs/a.md'')]"]
    by simp
  have c: "citation (?c [(''url'', PStr ''http://x'')]) = None"
    using citation_by_truth_value[of "?c [(''url'', PStr ''http://x'')]"]
    by simp
  from a b c show ?thesis by simp
qed

section \<open>Properties of the vector store\<close>

subsection \<open>Persistence\<close>

lemma pyval_json_roundtrip: "pyval_of_json (json_of_pyval v) = Inr v"
  by (cases v) simp_all

lemma metadata_json_roundtrip:
  "metadata_of_json (map (\<lambda>(k, v). (k, json_of_pyval v)) md) = Inr md"
  by (induction md) (auto simp: pyval_json_roundtrip)

lemma chunk_json_roundtrip: "chunk_of_json (asdict c) = Inr c"
  by (simp add: chunk_of_json_def asdict_def metadata_json_roundtrip)

lemma chunks_json_roundtrip: "chunks_of_items (map asdict cs) = Inr cs"
  by (induction cs) (simp_all add: chunk_json_roundtrip)

lemma load_chunks_payload: "load_chunks (payload st) = Inr (s_chunks st)"
  by (simp add: load_chunks_def payload_def chunks_json_roundtrip)

lemma load_embedding_model_payload:
  "load_embedding_model (payload st) = Inr (s_embedding_model st)"
  by (simp add: load_embedding_model_def payload_def split: option.split)

lemma store_open_save:
  assumes "s_embeddings st = Some e"
  shows "store_open (save st dir) = Inr st"
  using assms
  by (simp add: store_open_def save_def load_chunks_payload load_embedding_model_payload)

lemma add_documents_cases:
  assumes "add_documents tok emb docs cs co (st, dir) = (outcome, st', dir')"
  shows "(st' = st \<and> dir' = dir \<and> (outcome = None \<longrightarrow> new_chunks_of tok cs co docs = []))
         \<or> (outcome = None \<and> new_chunks_of tok cs co docs \<noteq> []
            \<and> (\<exists>e. s_embeddings st' = Some e) \<and> dir' = save st' dir)"
  using assms
  by (auto simp: add_documents_def Let_def
           split: sum.splits ndarray.splits option.splits if_splits)

lemma reachable_in_sync: "reachable state \<Longrightarrow> store_open (snd state) = Inr (fst state)"
proof (induction rule: reachable.induct)
  case (opened dir st)
  then show ?case by simp
next
  case (added state tok emb docs cs co outcome state')
  obtain st dir where s: "state = (st, dir)" by (cases state)
  obtain st' dir' where s': "state' = (st', dir')" by (cases state')
  from add_documents_cases[OF added.hyps(2)[unfolded s s']] added.IH
  show ?case
    by (auto simp: s s' store_open_save)
qed

lemma example_new_chunks:
  "new_chunks_of None 500 100 [example_document] =
     [\<lparr>c_id = ''doc-0001'', c_document_id = ''doc'', c_source = ''web'', c_content = ''hello'',
       c_metadata = [(''title'', PStr ''Guide'')]\<rparr>]"
proof -
  have c: "chunk_text None ''hello'' 500 100 = [''hello'']" by code_simp
  have e: "enumerate_chunks [''hello''] ''doc'' = [''doc-0001'']"
    by (simp add: enumerate_chunks_def zfill_def str_nat.simps digit_char_def
          ceil_log10.simps numeral_3_eq_3)
  show ?thesis
    by (simp add: new_chunks_of_def document_chunks_def example_document_def c e)
qed

subsection \<open>Dimension mismatch\<close>

text \<open>
  Claim C3. When the store already holds embeddings, an \<^verbatim>\<open>add_documents\<close> call that
  gets from the provider (called because the documents give at least one chunk) a 2-D
  matrix of another column count raises the dimension-mismatch error, and the store
  object and its directory after the call are the ones before it: chunk list, chunk
  count, matrix, both files.
\<close>

theorem add_documents_dimension_mismatch:
  assumes "s_embeddings st = Some old"
    and "new_chunks_of tok cs co docs \<noteq> []"
    and "embed emb (map c_content (new_chunks_of tok cs co docs)) = Inr (Mat new)"
    and "ncols new \<noteq> ncols old"
  shows "add_documents tok emb docs cs co (st, dir)
           = (Some (ValueError ''Embedding dimension mismatch''), st, dir)"
  using assms by (simp add: add_documents_def Let_def)

theorem add_documents_dimension_mismatch_witness:
  "add_documents None (constant_embedder (Mat \<lparr>ncols = 3, rows = [[1, 0, 0]]\<rparr>))
      [example_document] 500 100
      (\<lparr>s_chunks = [example_chunk ''doc-0001''],
        s_embeddings = Some \<lparr>ncols = 2, rows = [[1, 0]]\<rparr>,
        s_embedding_model = Some ''test-model''\<rparr>, empty_directory)
   = (Some (ValueError ''Embedding dimension mismatch''),
      \<lparr>s_chunks = [example_chunk ''doc-0001''],
        s_embeddings = Some \<lparr>ncols = 2, rows = [[1, 0]]\<rparr>,
        s_embedding_model = Some ''test-model''\<rparr>, empty_directory)"
  by (rule add_documents_dimension_mismatch[where old = "\<lparr>ncols = 2, rows = [[1, 0]]\<rparr>"
        and new = "\<lparr>ncols = 3, rows = [[1, 0, 0]]\<rparr>"])
     (simp_all add: example_new_chunks constant_embedder_def)

subsection \<open>Reopening after a successful add\<close>

text \<open>
  Claim C2. After a call of \<^verbatim>\<open>add_documents\<close> that returns normally, a store opened on
  the same directory is equal to the store that made the call: same chunk list, field by
  field, same matrix, same model name. This holds for every store that was opened on its
  directory and changed by \<^verbatim>\<open>add_documents\<close> only, and for any store at all when the
  call adds at least one chunk.
\<close>

theorem add_documents_reopen:
  assumes "reachable (st, dir) \<or> new_chunks_of tok cs co docs \<noteq> []"
    and "add_documents tok emb docs cs co (st, dir) = (None, st', dir')"
  shows "store_open dir' = Inr st'"
proof -
  from add_documents_cases[OF assms(2)]
  consider "st' = st" "dir' = dir" "new_chunks_of tok cs co docs = []"
    | e where "s_embeddings st' = Some e" "dir' = save st' dir"
    by auto
  then show ?thesis
  proof cases
    case 1
    with assms(1) have "reachable (st, dir)" by simp
    from reachable_in_sync[OF this] 1 show ?thesis by simp
  next
    case 2
    then show ?thesis by (simp add: store_open_save)
  qed
qed

theorem add_documents_reopen_witness:
  "reachable (empty_store, empty_directory)
   \<and> add_documents None (constant_embedder (Mat \<lparr>ncols = 2, rows = [[1, 0]]\<rparr>))
        [example_document] 500 100 (empty_store, empty_directory)
      = (None,
         \<lparr>s_chunks = [\<lparr>c_id = ''doc-0001'', c_document_id = ''doc'', c_source = ''web'',
                       c_content = ''hello'', c_metadata = [(''title'', PStr ''Guide'')]\<rparr>],
          s_embeddings = Some \<lparr>ncols = 2, rows = [[1, 0]]\<rparr>,
          s_embedding_model = Some ''test-model''\<rparr>,
         save \<lparr>s_chunks = [\<lparr>c_id = ''doc-0001'', c_document_id = ''doc'', c_source = ''web'',
                       c_content = ''hello'', c_metadata = [(''title'', PStr ''Guide'')]\<rparr>],
          s_embeddings = Some \<lparr>ncols = 2, rows = [[1, 0]]\<rparr>,
          s_embedding_model = Some ''test-model''\<rparr> empty_directory)
   \<and> store_open (save \<lparr>s_chunks = [\<lparr>c_id = ''doc-0001'', c_document_id = ''doc'',
                       c_source = ''web'', c_content = ''hello'',
                       c_metadata = [(''title'', PStr ''Guide'')]\<rparr>],
          s_embeddings = Some \<lparr>ncols = 2, rows = [[1, 0]]\<rparr>,
          s_embedding_model = Some ''test-model''\<rparr> empty_directory)
      = Inr \<lparr>s_chunks = [\<lparr>c_id = ''doc-0001'', c_document_id = ''doc'', c_source = ''web'',
                       c_content = ''hello'', c_metadata = [(''title'', PStr ''Guide'')]\<rparr>],
          s_embeddings = Some \<lparr>ncols = 2, rows = [[1, 0]]\<rparr>,
          s_embedding_model = Some ''test-model''\<rparr>"
proof -
  have r: "reachable (empty_store, empty_directory)"
    by (rule reachable.opened) (simp add: store_open_def empty_store_def empty_directory_def)
  have a: "add_documents None (constant_embedder (Mat \<lparr>ncols = 2, rows = [[1, 0]]\<rparr>))
        [example_document] 500 100 (empty_store, empty_directory)
      = (None,
         \<lparr>s_chunks = [\<lparr>c_id = ''doc-0001'', c_document_id = ''doc'', c_source = ''web'',
                       c_content = ''hello'', c_metadata = [(''title'', PStr ''Guide'')]\<rparr>],
          s_embeddings = Some \<lparr>ncols = 2, rows = [[1, 0]]\<rparr>,
          s_embedding_model = Some ''test-model''\<rparr>,
         save \<lparr>s_chunks = [\<lparr>c_id = ''doc-0001'', c_document_id = ''doc'', c_source = ''web'',
                       c_content = ''hello'', c_metadata = [(''title'', PStr ''Guide'')]\<rparr>],
          s_embeddings = Some \<lparr>ncols = 2, rows = [[1, 0]]\<rparr>,
          s_embedding_model = Some ''test-model''\<rparr> empty_directory)"
    by (simp add: add_documents_def Let_def example_new_chunks constant_embedder_def empty_store_def)
  from add_documents_reopen[OF disjI1[OF r] a] r a show ?thesis by simp
qed

subsection \<open>Opening a directory whose two files disagree\<close>

text \<open>
  A directory with one chunk record and two rows opens without an error, and the store
  holds one chunk and two rows.
\<close>

theorem store_open_mismatch_counterexample:
  "store_open \<lparr>meta_file = Some (JObj [(''chunks'', JArr [asdict (example_chunk ''doc-0001'')]),
                                       (''embedding_model'', JStr ''test-model'')]),
               vectors_file = Some \<lparr>ncols = 2, rows = [[1, 0], [0, 1]]\<rparr>\<rparr>
   = Inr \<lparr>s_chunks = [example_chunk ''doc-0001''],
          s_embeddings = Some \<lparr>ncols = 2, rows = [[1, 0], [0, 1]]\<rparr>,
          s_embedding_model = Some ''test-model''\<rparr>
   \<and> length [asdict (example_chunk ''doc-0001'')] \<noteq> length [[1, 0], [0, 1 :: real]]"
  by (simp add: store_open_def load_chunks_def load_embedding_model_def chunk_json_roundtrip)

text \<open>
  Claim C9, amended. When both files exist and the metadata file decodes, opening the
  store returns a store with the decoded chunk list and model name and the matrix of the
  vector file, whatever the number of chunk records and the number of rows are; in
  particular the metadata written for any store opens together with any matrix. No
  error is raised for a difference between the two counts.
\<close>

theorem store_open_unchecked:
  "(meta_file dir = Some meta \<and> vectors_file dir = Some v
      \<and> load_chunks meta = Inr cs \<and> load_embedding_model meta = Inr m
    \<longrightarrow> store_open dir = Inr \<lparr>s_chunks = cs, s_embeddings = Some v, s_embedding_model = m\<rparr>)
   \<and> store_open \<lparr>meta_file = Some (payload st), vectors_file = Some v'\<rparr>
       = Inr \<lparr>s_chunks = s_chunks st, s_embeddings = Some v', s_embedding_model = s_embedding_model st\<rparr>"
  by (simp add: store_open_def load_chunks_payload load_embedding_model_payload)

theorem store_open_unchecked_witness:
  "load_chunks (payload \<lparr>s_chunks = [example_chunk ''doc-0001''], s_embeddings = None,
                         s_embedding_model = Some ''test-model''\<rparr>)
     = Inr [example_chunk ''doc-0001'']
   \<and> load_embedding_model (payload \<lparr>s_chunks = [example_chunk ''doc-0001''],
                         s_embeddings = None, s_embedding_model = Some ''test-model''\<rparr>)
     = Inr (Some ''test-model'')
   \<and> store_open \<lparr>meta_file = Some (payload \<lparr>s_chunks = [example_chunk ''doc-0001''],
                                           s_embeddings = None,
                                           s_embedding_model = Some ''test-model''\<rparr>),
               vectors_file = Some \<lparr>ncols = 2, rows = [[1, 0], [0, 1]]\<rparr>\<rparr>
   = Inr \<lparr>s_chunks = [example_chunk ''doc-0001''],
          s_embeddings = Some \<lparr>ncols = 2, rows = [[1, 0], [0, 1]]\<rparr>,
          s_embedding_model = Some ''test-model''\<rparr>"
proof -
  let ?st = "\<lparr>s_chunks = [example_chunk ''doc-0001''], s_embeddings = None,
              s_embedding_model = Some ''test-model''\<rparr>"
  let ?v = "\<lparr>ncols = 2, rows = [[1, 0], [0, 1]]\<rparr>"
  have c: "load_chunks (payload ?st) = Inr [example_chunk ''doc-0001'']"
    by (simp add: load_chunks_payload)
  have m: "load_embedding_model (payload ?st) = Inr (Some ''test-model'')"
    by (simp add: load_embedding_model_payload)
  from store_open_unchecked[of "\<lparr>meta_file = Some (payload ?st), vectors_file = Some ?v\<rparr>"
      "payload ?st" ?v "[example_chunk ''doc-0001'']" "Some ''test-model''" ?st ?v] c m
  show ?thesis by simp
qed

subsection \<open>Search: the ranking\<close>

lemma results_of_in_range:
  "\<forall>i \<in> set idxs. i < length cs \<Longrightarrow>
   results_of cs sims idxs = Inr (map (\<lambda>i. \<lparr>r_chunk = cs ! i, r_score = sims ! i\<rparr>) idxs)"
  by (induction idxs) simp_all

lemma length_similarities: "length (similarities np vs q) = length vs"
  by (simp add: similarities_def)


lemma argsort_ok_set:
  assumes "argsort_ok asort xs"
  shows "set (asort xs) = {0 ..< length xs}" "distinct (asort xs)" "length (asort xs) = length xs"
proof -
  have m: "mset (asort xs) = mset [0 ..< length xs]" using assms by (simp add: argsort_ok_def)
  show "set (asort xs) = {0 ..< length xs}" using mset_eq_setD[OF m] by simp
  show "distinct (asort xs)" using m by (metis distinct_upt mset_eq_imp_distinct_iff)
  show "length (asort xs) = length xs" using mset_eq_length[OF m] by simp
qed


lemma top_indices_subset:
  "set (top_indices asort sims k) \<subseteq> set (asort sims)"
  by (auto simp: top_indices_def py_slice_upto_def dest: in_set_takeD)

lemma search_eq:
  assumes "s_chunks st \<noteq> []" "s_embeddings st = Some E"
    and "length (rows E) = length (s_chunks st)"
    and "embed emb [q] = Inr (Mat Q)" "rows Q = [qv]" "length qv = ncols E"
    and "argsort_ok asort (similarities np (rows E) qv)"
  shows "search np asort st emb q top_k =
           Inr (map (\<lambda>i. \<lparr>r_chunk = s_chunks st ! i, r_score = similarities np (rows E) qv ! i\<rparr>)
                  (top_indices asort (similarities np (rows E) qv) top_k))"
proof -
  let ?sims = "similarities np (rows E) qv"
  have "set (top_indices asort ?sims top_k) \<subseteq> {0 ..< length (s_chunks st)}"
    using top_indices_subset[of asort ?sims top_k] argsort_ok_set(1)[OF assms(7)] assms(3)
    by (simp add: length_similarities)
  then have "\<forall>i \<in> set (top_indices asort ?sims top_k). i < length (s_chunks st)" by auto
  from results_of_in_range[OF this] show ?thesis
    using assms by (simp add: search_def Let_def)
qed

lemma argsort_forced:
  assumes "argsort_ok asort xs" "distinct xs"
    and "mset idxs = mset [0 ..< length xs]" "sorted (map (\<lambda>i. xs ! i) idxs)"
  shows "asort xs = idxs"
proof (rule map_sorted_distinct_set_unique[where f = "\<lambda>i. xs ! i"])
  have s1: "set (asort xs) = {0 ..< length xs}" and d1: "distinct (asort xs)"
    using argsort_ok_set[OF assms(1)] by auto
  have s2: "set idxs = {0 ..< length xs}" using mset_eq_setD[OF assms(3)] by simp
  have d2: "distinct idxs" using assms(3) by (metis distinct_upt mset_eq_imp_distinct_iff)
  have inj: "inj_on (\<lambda>i. xs ! i) {0 ..< length xs}"
    using assms(2) by (auto simp: inj_on_def nth_eq_iff_index_eq)
  show "inj_on (\<lambda>i. xs ! i) (set (asort xs) \<union> set idxs)"
    using inj by (simp add: s1 s2)
  show "sorted (map (\<lambda>i. xs ! i) (asort xs))" using assms(1) by (simp add: argsort_ok_def)
  show "sorted (map (\<lambda>i. xs ! i) idxs)" by (rule assms(4))
  show "distinct (map (\<lambda>i. xs ! i) (asort xs))"
    using inj d1 by (simp add: distinct_map s1)
  show "distinct (map (\<lambda>i. xs ! i) idxs)"
    using inj d2 by (simp add: distinct_map s2)
  show "set (asort xs) = set idxs" by (simp add: s1 s2)
qed



subsection \<open>Search: the examples in single precision\<close>

text \<open>
  Rounding to a 32-bit float, evaluated: a number that is a multiple of the spacing of
  the floats around it is a float and is left as it is; any other goes to the nearest
  multiple.
\<close>

lemma f32_ulp_eq:
  assumes "2 powi k \<le> \<bar>x\<bar>" "\<bar>x\<bar> < 2 powi (k + 1)"
  shows "f32_ulp x = 2 powi (max (- 126) k - 23)"
proof -
  have "(0::real) < 2 powi k" by simp
  then have pos: "0 < \<bar>x\<bar>" using assms(1) by linarith
  have "(2::real) powr real_of_int k \<le> \<bar>x\<bar>" "\<bar>x\<bar> < (2::real) powr (real_of_int k + 1)"
    using assms powr_real_of_int'[of "2::real" k] powr_real_of_int'[of "2::real" "k + 1"]
    by (simp_all add: add.commute)
  then have "\<lfloor>log 2 \<bar>x\<bar>\<rfloor> = k"
    using floor_log_eq_powr_iff[of "\<bar>x\<bar>" 2 k] pos by simp
  then show ?thesis by (simp add: f32_ulp_def)
qed

lemma round_half_even_int: "round_half_even (of_int n) = n"
  by (simp add: round_half_even_def)

lemma round_half_even_down:
  assumes "of_int n \<le> y" "y < of_int n + 1 / 2"
  shows "round_half_even y = n"
proof -
  have "\<lfloor>y\<rfloor> = n" using assms by linarith
  then show ?thesis using assms by (simp add: round_half_even_def)
qed

lemma round_half_even_up:
  assumes "of_int n - 1 / 2 < y" "y \<le> of_int n"
  shows "round_half_even y = n"
proof (cases "y = of_int n")
  case True
  then show ?thesis by (simp add: round_half_even_int)
next
  case False
  then have "\<lfloor>y\<rfloor> = n - 1" using assms by linarith
  then show ?thesis using assms False by (simp add: round_half_even_def)
qed

lemma f32_round_one: "f32_round 1 = Finite 1"
proof -
  have u: "f32_ulp 1 = 2 powi (- 23)" using f32_ulp_eq[of 0 1] by simp
  have "(1::real) / 2 powi (- 23) = of_int (2 ^ 23)" by (simp add: power_int_minus)
  then have "round_half_even (1 / f32_ulp 1) = 2 ^ 23"
    by (simp only: u round_half_even_int)
  then show ?thesis
    by (simp add: f32_round_def u power_int_minus)
qed

lemma f32_round_minus_one: "f32_round (- 1) = Finite (- 1)"
proof -
  have u: "f32_ulp (- 1) = 2 powi (- 23)" using f32_ulp_eq[of 0 "- 1"] by simp
  have "(- 1::real) / 2 powi (- 23) = of_int (- (2 ^ 23))" by (simp add: power_int_minus)
  then have "round_half_even (- 1 / f32_ulp (- 1)) = - (2 ^ 23)"
    by (simp only: u round_half_even_int)
  then show ?thesis
    by (simp add: f32_round_def u power_int_minus)
qed

lemma f32_round_zero: "f32_round 0 = Finite 0"
  by (simp add: f32_round_def)

lemma f32_round_eps: "f32_round (1 / 10 ^ 10) = Finite (14411519 / 2 ^ 57)"
proof -
  have u: "f32_ulp (1 / 10 ^ 10) = 2 powi (- 57)"
    using f32_ulp_eq[of "- 34" "1 / 10 ^ 10"] by (simp add: power_int_minus)
  have q: "1 / 10 ^ 10 / f32_ulp (1 / 10 ^ 10) = (2 ^ 57 / 10 ^ 10 :: real)"
    by (simp only: u) (simp add: power_int_minus)
  have "round_half_even (2 ^ 57 / 10 ^ 10) = 14411519"
    by (rule round_half_even_up) simp_all
  then have "round_half_even (1 / 10 ^ 10 / f32_ulp (1 / 10 ^ 10)) = 14411519"
    by (simp only: q)
  then show ?thesis
    using u by (simp add: f32_round_def power_int_minus Let_def)
qed

lemma f32_round_one_plus_eps: "f32_round (1 + 14411519 / 2 ^ 57) = Finite 1"
proof -
  have u: "f32_ulp (1 + 14411519 / 2 ^ 57) = 2 powi (- 23)"
    using f32_ulp_eq[of 0 "1 + 14411519 / 2 ^ 57"] by simp
  have q: "(1 + 14411519 / 2 ^ 57) / f32_ulp (1 + 14411519 / 2 ^ 57)
           = (2 ^ 23 + 14411519 / 2 ^ 34 :: real)"
    by (simp only: u) (simp add: power_int_minus)
  have "round_half_even (2 ^ 23 + 14411519 / 2 ^ 34) = 2 ^ 23"
    by (rule round_half_even_down) simp_all
  then have "round_half_even ((1 + 14411519 / 2 ^ 57) / f32_ulp (1 + 14411519 / 2 ^ 57)) = 2 ^ 23"
    by (simp only: q)
  then show ?thesis
    using u by (simp add: f32_round_def power_int_minus Let_def)
qed








text \<open>
  The similarities of the example stores: \<open>1\<close>, \<open>0\<close> and \<open>-1\<close> for the three unit vectors,
  twice \<open>1\<close> for the two equal vectors, and for \<open>[3, 4]\<close> and \<open>[2, 0]\<close> the float nearest
  to \<open>3 / 5\<close>, which is \<open>5033165 / 2 ^ 23\<close>, and \<open>1\<close>. Adding \<^verbatim>\<open>1e-10\<close> to a norm of \<open>1\<close>, \<open>2\<close>
  or \<open>5\<close> is lost in the rounding.
\<close>

lemma f32_unit_arith:
  "f32_mul (Finite 1) (Finite 1) = Finite 1"
  "f32_mul (Finite 0) (Finite 0) = Finite 0"
  "f32_mul (Finite 0) (Finite 1) = Finite 0"
  "f32_mul (Finite 1) (Finite 0) = Finite 0"
  "f32_mul (Finite (- 1)) (Finite 1) = Finite (- 1)"
  "f32_mul (Finite (- 1)) (Finite (- 1)) = Finite 1"
  "f32_add (Finite 0) (Finite 0) = Finite 0"
  "f32_add (Finite 0) (Finite 1) = Finite 1"
  "f32_add (Finite 1) (Finite 0) = Finite 1"
  "f32_add (Finite 0) (Finite (- 1)) = Finite (- 1)"
  "f32_add (Finite (- 1)) (Finite 0) = Finite (- 1)"
  "f32_sqrt (Finite 1) = Finite 1"
  "f32_div (Finite 1) (Finite 1) = Finite 1"
  "f32_div (Finite 0) (Finite 1) = Finite 0"
  "f32_div (Finite (- 1)) (Finite 1) = Finite (- 1)"
  by (simp_all add: f32_round_one f32_round_zero f32_round_minus_one)

lemma f32_one_add_eps: "f32_add (Finite 1) f32_eps = Finite 1"
  by (simp only: f32_eps_def f32_round_eps f32_add.simps f32_round_one_plus_eps)

lemma f32_numpy_ops:
  "np_norm_axis1 float32_numpy = f32_norm" "np_norm float32_numpy = f32_norm"
  "np_add_eps float32_numpy x = f32_add x f32_eps"
  "np_scalar_add_eps float32_numpy x = f32_add x f32_eps"
  "np_mul float32_numpy = f32_mul" "np_div float32_numpy = f32_div"
  by (simp_all add: float32_numpy_def)

lemma f32_unit_norms:
  "f32_norm [1, 0] = Finite 1"
  "f32_norm [0, 1] = Finite 1"
  "f32_norm [- 1, 0] = Finite 1"
  by (simp_all add: f32_norm_def f32_sum_def f32_round_one f32_round_zero
        f32_round_minus_one f32_unit_arith)

lemma f32_unit_dots:
  "np_dot float32_numpy [1, 0] [1, 0] = Finite 1"
  "np_dot float32_numpy [0, 1] [1, 0] = Finite 0"
  "np_dot float32_numpy [- 1, 0] [1, 0] = Finite (- 1)"
  by (simp_all add: float32_numpy_def f32_sum_def f32_round_one f32_round_zero
        f32_round_minus_one f32_unit_arith)


lemma three_sims:
  "similarities float32_numpy [[1, 0], [0, 1], [- 1, 0]] [1, 0] = [Finite 1, Finite 0, Finite (- 1)]"
  by (simp add: similarities_def f32_numpy_ops f32_unit_norms f32_unit_dots f32_one_add_eps
        f32_round_one f32_round_zero f32_round_minus_one)

lemma tie_sims:
  "similarities float32_numpy [[1, 0], [1, 0]] [1, 0] = [Finite 1, Finite 1]"
  by (simp add: similarities_def f32_numpy_ops f32_unit_norms f32_unit_dots f32_one_add_eps
        f32_round_one f32_round_zero f32_round_minus_one)




text \<open>
  Where the similarities are distinct there is one valid argsort, and the search on the
  example stores is determined.
\<close>

lemma three_argsort:
  assumes "argsort_ok asort [Finite 1, Finite 0, Finite (- 1)]"
  shows "asort [Finite 1, Finite 0, Finite (- 1)] = [2, 1, 0]"
proof (rule argsort_forced[OF assms])
  show "distinct [Finite 1, Finite 0, Finite (- 1 :: real)]" by simp
  show "mset [2, 1, 0 :: nat] = mset [0 ..< length [Finite 1, Finite 0, Finite (- 1)]]"
    by (simp add: upt_rec numeral_3_eq_3 numeral_2_eq_2)
  show "sorted (map (\<lambda>i. [Finite 1, Finite 0, Finite (- 1)] ! i) [2, 1, 0])"
    by (simp add: less_eq_float32_def numeral_2_eq_2)
qed

lemma three_search:
  assumes "argsort_ok asort (similarities float32_numpy [[1, 0], [0, 1], [- 1, 0]] [1, 0])"
  shows "search float32_numpy asort three_store query_embedder q 2 =
           Inr [\<lparr>r_chunk = example_chunk ''doc-0001'', r_score = Finite 1\<rparr>,
                \<lparr>r_chunk = example_chunk ''doc-0002'', r_score = Finite 0\<rparr>]"
    and "search float32_numpy asort three_store query_embedder q 5 =
           Inr [\<lparr>r_chunk = example_chunk ''doc-0001'', r_score = Finite 1\<rparr>,
                \<lparr>r_chunk = example_chunk ''doc-0002'', r_score = Finite 0\<rparr>,
                \<lparr>r_chunk = example_chunk ''doc-0003'', r_score = Finite (- 1)\<rparr>]"
    and "search float32_numpy asort three_store query_embedder q (- 1) =
           Inr [\<lparr>r_chunk = example_chunk ''doc-0001'', r_score = Finite 1\<rparr>,
                \<lparr>r_chunk = example_chunk ''doc-0002'', r_score = Finite 0\<rparr>]"
proof -
  let ?E = "\<lparr>ncols = 2, rows = [[1, 0], [0, 1], [- 1, 0]]\<rparr>"
  have s: "search float32_numpy asort three_store query_embedder q k =
           Inr (map (\<lambda>i. \<lparr>r_chunk = s_chunks three_store ! i,
                           r_score = similarities float32_numpy (rows ?E) [1, 0] ! i\<rparr>)
                  (top_indices asort (similarities float32_numpy (rows ?E) [1, 0]) k))" for k
    by (rule search_eq[where Q = "\<lparr>ncols = 2, rows = [[1, 0]]\<rparr>"])
       (use assms in \<open>simp_all add: three_store_def query_embedder_def constant_embedder_def\<close>)
  have a: "asort [Finite 1, Finite 0, Finite (- 1)] = [2, 1, 0]"
    using three_argsort assms by (simp only: three_sims)
  have t2: "top_indices asort [Finite 1, Finite 0, Finite (- 1)] 2 = [0, 1]"
    by (simp add: top_indices_def a py_slice_upto_def slice_bound_def)
  have t5: "top_indices asort [Finite 1, Finite 0, Finite (- 1)] 5 = [0, 1, 2]"
    by (simp add: top_indices_def a py_slice_upto_def slice_bound_def)
  have tm: "top_indices asort [Finite 1, Finite 0, Finite (- 1)] (- 1) = [0, 1]"
    by (simp add: top_indices_def a py_slice_upto_def slice_bound_def)
  show "search float32_numpy asort three_store query_embedder q 2 =
           Inr [\<lparr>r_chunk = example_chunk ''doc-0001'', r_score = Finite 1\<rparr>,
                \<lparr>r_chunk = example_chunk ''doc-0002'', r_score = Finite 0\<rparr>]"
    by (simp add: s three_sims t2) (simp add: three_store_def)
  show "search float32_numpy asort three_store query_embedder q 5 =
           Inr [\<lparr>r_chunk = example_chunk ''doc-0001'', r_score = Finite 1\<rparr>,
                \<lparr>r_chunk = example_chunk ''doc-0002'', r_score = Finite 0\<rparr>,
                \<lparr>r_chunk = example_chunk ''doc-0003'', r_score = Finite (- 1)\<rparr>]"
    by (simp add: s three_sims t5) (simp add: three_store_def)
  show "search float32_numpy asort three_store query_embedder q (- 1) =
           Inr [\<lparr>r_chunk = example_chunk ''doc-0001'', r_score = Finite 1\<rparr>,
                \<lparr>r_chunk = example_chunk ''doc-0002'', r_score = Finite 0\<rparr>]"
    by (simp add: s three_sims tm) (simp add: three_store_def)
qed



lemma three_argsort_ok:
  "argsort_ok (\<lambda>sims. [2, 1, 0]) (similarities float32_numpy [[1, 0], [0, 1], [- 1, 0]] [1, 0])"
  by (simp add: three_sims argsort_ok_def less_eq_float32_def upt_rec numeral_3_eq_3
        numeral_2_eq_2)

lemma tie_argsort_ok:
  "argsort_ok (\<lambda>sims. [0, 1]) (similarities float32_numpy [[1, 0], [1, 0]] [1, 0])"
  by (simp add: tie_sims argsort_ok_def less_eq_float32_def upt_rec numeral_2_eq_2)

lemma tie_search:
  "search float32_numpy (\<lambda>sims. [0, 1]) tie_store query_embedder q 2 =
     Inr [\<lparr>r_chunk = example_chunk ''doc-0002'', r_score = Finite 1\<rparr>,
          \<lparr>r_chunk = example_chunk ''doc-0001'', r_score = Finite 1\<rparr>]"
proof -
  let ?E = "\<lparr>ncols = 2, rows = [[1, 0], [1, 0]]\<rparr>"
  have "search float32_numpy (\<lambda>sims. [0, 1]) tie_store query_embedder q 2 =
           Inr (map (\<lambda>i. \<lparr>r_chunk = s_chunks tie_store ! i,
                           r_score = similarities float32_numpy (rows ?E) [1, 0] ! i\<rparr>)
                  (top_indices (\<lambda>sims. [0, 1]) (similarities float32_numpy (rows ?E) [1, 0]) 2))"
    by (rule search_eq[where Q = "\<lparr>ncols = 2, rows = [[1, 0]]\<rparr>"])
       (use tie_argsort_ok in
         \<open>simp_all add: tie_store_def query_embedder_def constant_embedder_def\<close>)
  then show ?thesis
    by (simp add: tie_sims top_indices_def py_slice_upto_def slice_bound_def tie_store_def)
qed




subsection \<open>Search: equal similarities\<close>

text \<open>
  Two chunks with the same vector have the same similarity. The argsort that returns
  \<open>[0, 1]\<close> on the two equal similarities meets NumPy's contract, and with it the search
  returns the second chunk before the first.
\<close>

theorem search_ties_counterexample:
  "argsort_ok (\<lambda>sims. [0, 1]) (similarities float32_numpy [[1, 0], [1, 0]] [1, 0])
   \<and> similarities float32_numpy [[1, 0], [1, 0]] [1, 0] ! 0
       = similarities float32_numpy [[1, 0], [1, 0]] [1, 0] ! 1
   \<and> search float32_numpy (\<lambda>sims. [0, 1]) tie_store query_embedder ''how?'' 2 =
        Inr [\<lparr>r_chunk = example_chunk ''doc-0002'', r_score = Finite 1\<rparr>,
             \<lparr>r_chunk = example_chunk ''doc-0001'', r_score = Finite 1\<rparr>]
   \<and> s_chunks tie_store = [example_chunk ''doc-0001'', example_chunk ''doc-0002'']"
proof -
  have a: "argsort_ok (\<lambda>sims. [0, 1]) (similarities float32_numpy [[1, 0], [1, 0]] [1, 0])"
    by (rule tie_argsort_ok)
  have b: "similarities float32_numpy [[1, 0], [1, 0]] [1, 0] ! 0
       = similarities float32_numpy [[1, 0], [1, 0]] [1, 0] ! 1"
    by (simp add: tie_sims)
  have c: "search float32_numpy (\<lambda>sims. [0, 1]) tie_store query_embedder ''how?'' 2 =
        Inr [\<lparr>r_chunk = example_chunk ''doc-0002'', r_score = Finite 1\<rparr>,
             \<lparr>r_chunk = example_chunk ''doc-0001'', r_score = Finite 1\<rparr>]"
    by (rule tie_search)
  have d: "s_chunks tie_store = [example_chunk ''doc-0001'', example_chunk ''doc-0002'']"
    by (simp add: tie_store_def)
  from a b c d show ?thesis by blast
qed

text \<open>
  Claim C6, amended. The search has no rule for equal similarities: under the conditions
  of claim C1 and for every \<open>top_k\<close> it returns the chunks at the indices
  \<^verbatim>\<open>similarities.argsort()[::-1][:top_k]\<close>, each with its similarity, so the order of the
  results, among equal similarities too, is the order of the ascending argsort read
  backwards.
\<close>

theorem search_argsort_reversed:
  assumes "s_chunks st \<noteq> []" "s_embeddings st = Some E"
    and "length (rows E) = length (s_chunks st)"
    and "embed emb [q] = Inr (Mat Q)" "rows Q = [qv]" "length qv = ncols E"
    and "argsort_ok asort (similarities np (rows E) qv)"
  shows "search np asort st emb q top_k =
           Inr (map (\<lambda>i. \<lparr>r_chunk = s_chunks st ! i, r_score = similarities np (rows E) qv ! i\<rparr>)
                  (py_slice_upto (rev (asort (similarities np (rows E) qv))) top_k))"
  using search_eq[OF assms, of top_k] by (simp add: top_indices_def)

theorem search_argsort_reversed_witness:
  "s_chunks tie_store \<noteq> []
   \<and> length (rows \<lparr>ncols = 2, rows = [[1, 0], [1, 0]]\<rparr>) = length (s_chunks tie_store)
   \<and> argsort_ok (\<lambda>sims. [0, 1]) (similarities float32_numpy (rows \<lparr>ncols = 2, rows = [[1, 0], [1, 0]]\<rparr>) [1, 0])
   \<and> search float32_numpy (\<lambda>sims. [0, 1]) tie_store query_embedder ''how?'' 2 =
        Inr (map (\<lambda>i. \<lparr>r_chunk = s_chunks tie_store ! i,
                        r_score = similarities float32_numpy
                                    (rows \<lparr>ncols = 2, rows = [[1, 0], [1, 0]]\<rparr>) [1, 0] ! i\<rparr>)
               (py_slice_upto (rev [0, 1]) 2))
   \<and> py_slice_upto (rev [0, 1 :: nat]) 2 = [1, 0]"
proof -
  let ?E = "\<lparr>ncols = 2, rows = [[1, 0], [1, 0]]\<rparr>"
  let ?Q = "\<lparr>ncols = 2, rows = [[1, 0]]\<rparr>"
  have h1: "s_chunks tie_store \<noteq> []" by (simp add: tie_store_def)
  have h2: "s_embeddings tie_store = Some ?E" by (simp add: tie_store_def)
  have h3: "length (rows ?E) = length (s_chunks tie_store)" by (simp add: tie_store_def)
  have h4: "embed query_embedder [''how?''] = Inr (Mat ?Q)"
    by (simp add: query_embedder_def constant_embedder_def)
  have h5: "rows ?Q = [[1, 0]]" by simp
  have h6: "length [1, 0 :: real] = ncols ?E" by simp
  have h7: "argsort_ok (\<lambda>sims. [0, 1]) (similarities float32_numpy (rows ?E) [1, 0])"
    using tie_argsort_ok by simp
  note s = search_argsort_reversed[OF h1 h2 h3 h4 h5 h6 h7, where top_k = 2]
  have t: "py_slice_upto (rev [0, 1 :: nat]) 2 = [1, 0]"
    by (simp add: py_slice_upto_def slice_bound_def)
  from h1 h3 h7 s t show ?thesis by blast
qed

subsection \<open>Search: non-positive \<open>top_k\<close>\<close>

lemma search_empty_store:
  "s_chunks st = [] \<or> s_embeddings st = None \<Longrightarrow> search np asort st emb q top_k = Inr []"
  by (auto simp: search_def split: option.splits)

lemma top_indices_zero: "top_indices asort sims 0 = []"
  by (simp add: top_indices_def py_slice_upto_def slice_bound_def)

lemma top_indices_negative:
  assumes "top_k < 0" "argsort_ok asort sims"
  shows "length (top_indices asort sims top_k) = nat (int (length sims) + top_k)"
  using assms argsort_ok_set(3)[OF assms(2)]
  by (simp add: top_indices_def py_slice_upto_def slice_bound_def)

text \<open>
  Claim C7. An empty store gives no result and so does \<open>top_k = 0\<close>. A negative
  \<open>top_k\<close> does not: the slice \<^verbatim>\<open>[:top_k]\<close> then drops the last \<open>|top_k|\<close> indices, and on
  the three-chunk store \<open>top_k = -1\<close> returns two results, whichever argsort is used.
\<close>

theorem search_negative_top_k:
  assumes "argsort_ok asort (similarities float32_numpy [[1, 0], [0, 1], [- 1, 0]] [1, 0])"
  shows "search float32_numpy asort three_store query_embedder q (- 1) =
     Inr [\<lparr>r_chunk = example_chunk ''doc-0001'', r_score = Finite 1\<rparr>,
          \<lparr>r_chunk = example_chunk ''doc-0002'', r_score = Finite 0\<rparr>]"
  by (rule three_search(3)[OF assms])

theorem search_negative_top_k_witness:
  "argsort_ok (\<lambda>sims. [2, 1, 0]) (similarities float32_numpy [[1, 0], [0, 1], [- 1, 0]] [1, 0])
   \<and> search float32_numpy (\<lambda>sims. [2, 1, 0]) three_store query_embedder ''how?'' (- 1) =
       Inr [\<lparr>r_chunk = example_chunk ''doc-0001'', r_score = Finite 1\<rparr>,
            \<lparr>r_chunk = example_chunk ''doc-0002'', r_score = Finite 0\<rparr>]"
  using search_negative_top_k[OF three_argsort_ok, of "''how?''"] three_argsort_ok by simp

end
